theory Spec2Isabelle
  imports Main
begin

section \<open>Values shared by the model\<close>

text \<open>
  A JavaScript \<open>Error\<close> object, as far as the code looks at it: its \<open>code\<close> property
  (absent on a plain \<open>new Error(...)\<close>) and its \<open>message\<close>. What Node's modules, \<open>JSON\<close>
  and the settings provider throw or reject with are such objects.
\<close>

datatype error = Error (code: "string option") (message: string)

text \<open>
  \<open>interface Update { checked: number; version: string }\<close> and
  \<open>interface LatestResponse { name: string }\<close>. \<open>checked\<close> holds a value of
  \<open>Date.now()\<close>, an integral number of milliseconds.
\<close>

record Update =
  checked :: int
  version :: string

record LatestResponse =
  name :: string

text \<open>
  What the code reads of an \<open>http.IncomingMessage\<close>: \<open>statusCode\<close> (optional, a
  non-negative integer when the parser sets it), \<open>headers.location\<close> (optional), and the
  body stream, which either emits \<open>error\<close> or emits its \<open>data\<close> chunks and then
  \<open>end\<close>.
\<close>

record IncomingMessage =
  statusCode :: "nat option"
  location :: "string option"
  stream :: "error + string list"

text \<open>
  The calls the update provider makes on its collaborators, in the order it makes them:
  \<open>settings.read()\<close>, \<open>httpx.get(uri, ...)\<close> and \<open>settings.write({ update })\<close>.
  Calls to the logger change neither control flow nor any collaborator and are left out
  of this trace.
\<close>

datatype effect = SettingsRead | HttpGet string | SettingsWrite Update

text \<open>
  How a promise ends: it rejects, it fulfils, or it never settles. The last is what
  is left of a promise when the exception that should have rejected it is thrown in a
  callback of the event loop, outside the promise's executor and outside every \<open>try\<close>:
  the exception escapes uncaught and neither \<open>resolve\<close> nor \<open>reject\<close> is called.
\<close>

datatype 'a promise = Rejected error | Fulfilled 'a | Unsettled

text \<open>
  The network as the fetch client sees it. The \<open>k\<close>-th call of \<open>httpx.get\<close> of one
  fetch (counting from 0) at a given URI throws at once (Node does so for a URI it
  refuses, such as one whose protocol is not that of the module), or it returns a client
  request that emits \<open>error\<close>, or one that delivers a response.
\<close>

datatype answer = Throws error | Fails error | Responds IncomingMessage

type_synonym network = "nat \<Rightarrow> string \<Rightarrow> answer"

section \<open>The redirect-following fetch client (\<open>requestResponse\<close>, \<open>request\<close>)\<close>

definition maxRedirects :: nat where
  "maxRedirects = 10"

text \<open>Template-literal conversion of a non-negative integer to its decimal digits.\<close>

definition digit_char :: "nat \<Rightarrow> char" where
  "digit_char n = ''0123456789'' ! (n mod 10)"

fun show_nat :: "nat \<Rightarrow> string" where
  "show_nat n = (if n < 10 then [digit_char n] else show_nat (n div 10) @ [digit_char (n mod 10)])"

text \<open>
  The first test of the response callback:
  \<open>response.statusCode && response.statusCode >= 300 && response.statusCode < 400 &&
  response.headers.location\<close>. A missing status, the status 0, a missing header and the
  empty header are all falsy. The result is the location to follow, if the test passes.
\<close>

definition redirect_location :: "IncomingMessage \<Rightarrow> string option" where
  "redirect_location response =
     (case statusCode response of
        None \<Rightarrow> None
      | Some c \<Rightarrow>
          if c \<noteq> 0 \<and> 300 \<le> c \<and> c < 400
          then (case location response of
                  None \<Rightarrow> None
                | Some l \<Rightarrow> if l \<noteq> [] then Some l else None)
          else None)"

text \<open>
  The second test: \<open>!response.statusCode || response.statusCode < 200 ||
  response.statusCode >= 400\<close>.
\<close>

definition bad_status :: "IncomingMessage \<Rightarrow> bool" where
  "bad_status response =
     (case statusCode response of
        None \<Rightarrow> True
      | Some c \<Rightarrow> c = 0 \<or> c < 200 \<or> 400 \<le> c)"

text \<open>\<open>`${uri}: ${response.statusCode || "500"}`\<close>\<close>

definition status_message :: "string \<Rightarrow> IncomingMessage \<Rightarrow> string" where
  "status_message uri response =
     uri @ '': '' @
     (case statusCode response of
        None \<Rightarrow> ''500''
      | Some c \<Rightarrow> if c = 0 then ''500'' else show_nat c)"

text \<open>
  The inner function \<open>request\<close> of \<open>requestResponse\<close>, with the closure variable
  \<open>redirects\<close> passed along. \<open>resolve\<close> is Node's \<open>url.resolve\<close>. The result is
  how the promise ends, with the calls of \<open>httpx.get\<close> made on the way.

  The first call of \<open>request\<close> is made in the executor of the promise, where an exception
  of \<open>httpx.get\<close> rejects the promise. Every later call is made in the response callback
  of the request before it (line 205): there an exception of \<open>httpx.get\<close> is thrown into
  the event loop, and the promise never settles.
\<close>

function requestResponse_request ::
  "network \<Rightarrow> (string \<Rightarrow> string \<Rightarrow> string) \<Rightarrow> nat \<Rightarrow> string
     \<Rightarrow> IncomingMessage promise \<times> effect list" where
  "requestResponse_request net resolve redirects uri =
     (case net redirects uri of
        Throws e \<Rightarrow> (if redirects = 0 then Rejected e else Unsettled, [HttpGet uri])
      | Fails e \<Rightarrow> (Rejected e, [HttpGet uri])
      | Responds response \<Rightarrow>
          (case redirect_location response of
             Some l \<Rightarrow>
               if redirects + 1 > maxRedirects
               then (Rejected (Error None ''reached max redirects''), [HttpGet uri])
               else apsnd ((#) (HttpGet uri))
                      (requestResponse_request net resolve (redirects + 1) (resolve uri l))
           | None \<Rightarrow>
               if bad_status response
               then (Rejected (Error None (status_message uri response)), [HttpGet uri])
               else (Fulfilled response, [HttpGet uri])))"
  by pat_completeness auto
termination
  by (relation "measure (\<lambda>(net, resolve, redirects, uri). maxRedirects + 1 - redirects)") auto

declare requestResponse_request.simps [simp del]

definition requestResponse ::
  "network \<Rightarrow> (string \<Rightarrow> string \<Rightarrow> string) \<Rightarrow> string
     \<Rightarrow> IncomingMessage promise \<times> effect list" where
  "requestResponse net resolve uri = requestResponse_request net resolve 0 uri"

text \<open>
  \<open>request\<close>: await the response, then gather the chunks until \<open>end\<close>
  (\<open>Buffer.concat\<close>); an \<open>error\<close> event of the stream rejects. An \<open>await\<close> of a
  promise that never settles never resumes.
\<close>

definition request ::
  "network \<Rightarrow> (string \<Rightarrow> string \<Rightarrow> string) \<Rightarrow> string \<Rightarrow> string promise \<times> effect list" where
  "request net resolve uri =
     (case requestResponse net resolve uri of
        (Rejected e, t) \<Rightarrow> (Rejected e, t)
      | (Unsettled, t) \<Rightarrow> (Unsettled, t)
      | (Fulfilled response, t) \<Rightarrow>
          (case stream response of
             Inl e \<Rightarrow> (Rejected e, t)
           | Inr chunks \<Rightarrow> (Fulfilled (concat chunks), t)))"

section \<open>The cache controller (\<open>_getUpdate\<close>, \<open>getUpdate\<close>)\<close>

text \<open>
  What one run of \<open>_getUpdate\<close> meets outside the provider: the value of
  \<open>Date.now()\<close>, how \<open>settings.read()\<close> settles (the blob's \<open>update\<close> key, or a
  rejection), the network and \<open>url.resolve\<close>, \<open>JSON.parse\<close> on the body read as a
  \<open>LatestResponse\<close> (the source's cast), and how \<open>settings.write({ update })\<close>
  settles. The settings provider, Node's \<open>http\<close>, \<open>https\<close> and \<open>url\<close> modules
  and \<open>JSON\<close> are not part of the repository's sources and are taken as given.

  \<open>env_parse\<close> stands for lines 125 and 126 up to \<open>data.name\<close>: \<open>Inl\<close> is an
  exception of \<open>JSON.parse\<close> or of the read of \<open>name\<close> (on \<open>null\<close>), \<open>Inr\<close> a
  payload with its \<open>name\<close>. A payload that parses and has no string under \<open>name\<close>
  throws nothing and is no \<open>LatestResponse\<close>; the cast hides it and the types here
  leave it out.
\<close>

record environment =
  env_now :: int
  env_read :: "error + Update option"
  env_net :: network
  env_resolve :: "string \<Rightarrow> string \<Rightarrow> string"
  env_parse :: "string \<Rightarrow> error + LatestResponse"
  env_write :: "Update \<Rightarrow> error option"

definition updateInterval :: int where
  "updateInterval = 1000 * 60 * 60 * 24"

text \<open>
  Lines 124 to 127: \<open>this.request\<close>, \<open>JSON.parse\<close>, the new record, \<open>settings.write\<close>.
  The effects so far are handed in and extended.
\<close>

definition fetch_latest :: "string \<Rightarrow> environment \<Rightarrow> effect list \<Rightarrow> Update promise \<times> effect list" where
  "fetch_latest uri env t =
     (case request (env_net env) (env_resolve env) uri of
        (Rejected e, t') \<Rightarrow> (Rejected e, t @ t')
      | (Unsettled, t') \<Rightarrow> (Unsettled, t @ t')
      | (Fulfilled buffer, t') \<Rightarrow>
          (case env_parse env buffer of
             Inl e \<Rightarrow> (Rejected e, t @ t')
           | Inr data \<Rightarrow>
               (let u = \<lparr>checked = env_now env, version = name data\<rparr>
                in case env_write env u of
                     Some e \<Rightarrow> (Rejected e, t @ t' @ [SettingsWrite u])
                   | None \<Rightarrow> (Fulfilled u, t @ t' @ [SettingsWrite u]))))"

text \<open>
  Line 122: \<open>!force ? await this.settings.read() : { update: undefined }\<close>, destructured
  to its \<open>update\<close> key.
\<close>

definition read_update :: "environment \<Rightarrow> bool \<Rightarrow> (error + Update option) \<times> effect list" where
  "read_update env force = (if \<not> force then (env_read env, [SettingsRead]) else (Inr None, []))"

text \<open>
  The body of the \<open>try\<close> block of \<open>_getUpdate\<close>, as a promise of its own:
  \<open>Rejected\<close> is an exception thrown in it, \<open>Unsettled\<close> an \<open>await\<close> in it that
  never resumes.
\<close>

definition getUpdate_try :: "string \<Rightarrow> environment \<Rightarrow> bool \<Rightarrow> Update promise \<times> effect list" where
  "getUpdate_try uri env force =
     (case read_update env force of
        (Inl e, t) \<Rightarrow> (Rejected e, t)
      | (Inr None, t) \<Rightarrow> fetch_latest uri env t
      | (Inr (Some u), t) \<Rightarrow>
          if checked u + updateInterval < env_now env
          then fetch_latest uri env t
          else (Fulfilled u, t))"

definition fallback :: "environment \<Rightarrow> Update" where
  "fallback env = \<lparr>checked = env_now env, version = ''unknown''\<rparr>"

text \<open>
  The \<open>catch\<close> of \<open>_getUpdate\<close>: it turns every exception of the \<open>try\<close>
  block into the fallback. What never settles in the block never reaches it.
\<close>

definition catch :: "environment \<Rightarrow> Update promise \<times> effect list \<Rightarrow> Update promise \<times> effect list" where
  "catch env r =
     (case r of
        (Rejected e, t) \<Rightarrow> (Fulfilled (fallback env), t)
      | (Fulfilled u, t) \<Rightarrow> (Fulfilled u, t)
      | (Unsettled, t) \<Rightarrow> (Unsettled, t))"

text \<open>\<open>_getUpdate\<close>: the \<open>try\<close> block with its \<open>catch\<close>.\<close>

definition getUpdate' :: "string \<Rightarrow> environment \<Rightarrow> bool \<Rightarrow> Update promise \<times> effect list" where
  "getUpdate' uri env force = catch env (getUpdate_try uri env force)"

text \<open>
  The provider's own state. \<open>update\<close> is the field \<open>private update?: Promise<Update>\<close>:
  the pending promise, named by how it will end. The effects of the check operation
  behind the promise are listed with the call that starts it.
\<close>

record UpdateHttpProvider =
  enabled :: bool
  latestUrl :: string
  update :: "Update promise option"

text \<open>
  \<open>getUpdate\<close>: the promise returned, the provider afterwards, and the effects started.
  The body runs without suspension, so it is one step.
\<close>

definition getUpdate ::
  "UpdateHttpProvider \<Rightarrow> environment \<Rightarrow> bool
     \<Rightarrow> Update promise \<times> UpdateHttpProvider \<times> effect list" where
  "getUpdate p env force =
     (if \<not> enabled p then (Rejected (Error None ''updates are not enabled''), p, [])
      else (case update p of
              None \<Rightarrow>
                (case getUpdate' (latestUrl p) env force of
                   (r, t) \<Rightarrow> (r, p\<lparr>update := Some r\<rparr>, t))
            | Some r \<Rightarrow> (r, p, [])))"

text \<open>
  The callback \<open>() => (this.update = undefined)\<close>, registered with \<open>then\<close> and so run
  when the promise of the check operation fulfils, and only then.
\<close>

definition settle :: "UpdateHttpProvider \<Rightarrow> UpdateHttpProvider" where
  "settle p = p\<lparr>update := None\<rparr>"

text \<open>
  The provider on the event loop: calls of \<open>getUpdate\<close>, each with the environment its
  check operation would meet, interleaved with the settling of the operation in flight.
  \<open>Settle\<close> on a provider with nothing in flight, or with an operation in flight that
  never settles, is no event of the program and leaves it as it is.
\<close>

datatype event = Call environment bool | Settle

datatype observation = Returned "Update promise" "effect list" | Settled | Nothing

fun step :: "UpdateHttpProvider \<Rightarrow> event \<Rightarrow> observation \<times> UpdateHttpProvider" where
  "step p (Call env force) = (case getUpdate p env force of (r, p', t) \<Rightarrow> (Returned r t, p'))"
| "step p Settle =
     (case update p of
        Some (Fulfilled u) \<Rightarrow> (Settled, settle p)
      | _ \<Rightarrow> (Nothing, p))"

fun run :: "UpdateHttpProvider \<Rightarrow> event list \<Rightarrow> observation list \<times> UpdateHttpProvider" where
  "run p [] = ([], p)"
| "run p (ev # evs) = (case step p ev of (ob, p') \<Rightarrow> apfst ((#) ob) (run p' evs))"

text \<open>
  A call started a check operation exactly when it has effects: \<open>_getUpdate\<close> begins with
  \<open>settings.read()\<close> or, when forced, with the first \<open>httpx.get\<close>.
\<close>

fun started :: "observation \<Rightarrow> bool" where
  "started (Returned r t) = (t \<noteq> [])"
| "started ob = False"

text \<open>The number of check operations in flight, read off the provider.\<close>

definition in_flight :: "UpdateHttpProvider \<Rightarrow> nat" where
  "in_flight p = (case update p of None \<Rightarrow> 0 | Some r \<Rightarrow> 1)"



fun is_settled :: "observation \<Rightarrow> bool" where
  "is_settled Settled = True"
| "is_settled ob = False"

fun effects_of :: "observation \<Rightarrow> effect list" where
  "effects_of (Returned r t) = t"
| "effects_of ob = []"

fun is_write :: "effect \<Rightarrow> bool" where
  "is_write (SettingsWrite u) = True"
| "is_write ef = False"

fun is_network :: "effect \<Rightarrow> bool" where
  "is_network (HttpGet uri) = True"
| "is_network ef = False"

section \<open>The version comparator (\<open>isLatestVersion\<close>)\<close>

text \<open>
  \<open>semver.lt\<close> is handed in: \<open>Inl\<close> is the \<open>TypeError\<close> it throws.
  \<open>latest.version === version || semver.lt(latest.version, version)\<close> inside
  \<open>try\<close>, \<open>return true\<close> in the \<open>catch\<close>.
\<close>

definition isLatestVersion :: "(string \<Rightarrow> string \<Rightarrow> error + bool) \<Rightarrow> string \<Rightarrow> Update \<Rightarrow> bool" where
  "isLatestVersion lt currentVersion latest =
     (if version latest = currentVersion then True
      else (case lt (version latest) currentVersion of
              Inl e \<Rightarrow> True
            | Inr b \<Rightarrow> b))"

section \<open>The status surface (\<open>getUpdateHtml\<close>, \<open>getRoot\<close>)\<close>

text \<open>
  \<open>await this.getUpdate()\<close> resumes after the promise has fulfilled, hence after the
  callback that clears \<open>this.update\<close>; it throws when the promise rejects and never
  resumes when the promise never settles.
\<close>

definition getUpdateHtml ::
  "(string \<Rightarrow> string \<Rightarrow> error + bool) \<Rightarrow> string \<Rightarrow> UpdateHttpProvider \<Rightarrow> environment
     \<Rightarrow> string promise \<times> UpdateHttpProvider \<times> effect list" where
  \<open>getUpdateHtml lt currentVersion p env =
     (if \<not> enabled p then (Fulfilled ''Updates are disabled'', p, [])
      else (case getUpdate p env False of
              (Rejected e, p', t) \<Rightarrow> (Rejected e, p', t)
            | (Unsettled, p', t) \<Rightarrow> (Unsettled, p', t)
            | (Fulfilled u, p', t) \<Rightarrow>
                (Fulfilled
                   (if isLatestVersion lt currentVersion u then ''No update available''
                    else ''<button type="submit" class="apply -button">Update to '' @ version u
                           @ ''</button>''),
                 settle p', t)))\<close>

text \<open>
  The content of the response of \<open>getRoot\<close>. The JSON body is \<open>{ isLatest: true }\<close>
  or \<open>{ ...update, isLatest }\<close>. The page is rendered by the base class
  \<open>HttpProvider\<close>, which is not among the sources; it is given by the two texts put in
  for \<open>{{UPDATE_STATUS}}\<close> and \<open>{{ERROR}}\<close>, and \<open>resource\<close> is how
  \<open>getUtf8Resource\<close> settles.
\<close>

datatype content = JsonContent "Update option" bool | PageContent string string

definition getRoot ::
  "(string \<Rightarrow> string \<Rightarrow> error + bool) \<Rightarrow> string \<Rightarrow> UpdateHttpProvider \<Rightarrow> environment
     \<Rightarrow> string option \<Rightarrow> error option \<Rightarrow> (error + Update) option
     \<Rightarrow> content promise \<times> UpdateHttpProvider \<times> effect list" where
  \<open>getRoot lt currentVersion p env content_type resource errorOrUpdate =
     (if content_type = Some ''application/json''
      then (if \<not> enabled p then (Fulfilled (JsonContent None True), p, [])
            else (case getUpdate p env False of
                    (Rejected e, p', t) \<Rightarrow> (Rejected e, p', t)
                  | (Unsettled, p', t) \<Rightarrow> (Unsettled, p', t)
                  | (Fulfilled u, p', t) \<Rightarrow>
                      (Fulfilled (JsonContent (Some u) (isLatestVersion lt currentVersion u)),
                       settle p', t)))
      else (case resource of
              Some e \<Rightarrow> (Rejected e, p, [])
            | None \<Rightarrow>
                (case errorOrUpdate of
                   Some (Inr u) \<Rightarrow>
                     (Fulfilled (PageContent (''Updated to '' @ version u) []), p, [])
                 | Some (Inl err) \<Rightarrow>
                     (case getUpdateHtml lt currentVersion p env of
                        (Rejected e, p', t) \<Rightarrow> (Rejected e, p', t)
                      | (Unsettled, p', t) \<Rightarrow> (Unsettled, p', t)
                      | (Fulfilled html, p', t) \<Rightarrow>
                          (Fulfilled
                             (PageContent html
                                (''<div class="error">'' @ message err @ ''</div>'')), p', t))
                 | None \<Rightarrow>
                     (case getUpdateHtml lt currentVersion p env of
                        (Rejected e, p', t) \<Rightarrow> (Rejected e, p', t)
                      | (Unsettled, p', t) \<Rightarrow> (Unsettled, p', t)
                      | (Fulfilled html, p', t) \<Rightarrow>
                          (Fulfilled (PageContent html []), p', t)))))\<close>

section \<open>The semver package, as \<open>isLatestVersion\<close> uses it\<close>

text \<open>
  The package is a dependency, not part of the repository. \<open>semver.lt(a, b)\<close> builds
  \<open>new SemVer(a)\<close> and \<open>new SemVer(b)\<close>, each of which throws a \<open>TypeError\<close> on
  a string that does not parse, and answers whether the first compares below the second.
  The parser and the comparison are arguments here.
\<close>

definition semver_lt ::
  "(string \<Rightarrow> 'v option) \<Rightarrow> ('v \<Rightarrow> 'v \<Rightarrow> int) \<Rightarrow> string \<Rightarrow> string \<Rightarrow> error + bool" where
  "semver_lt parse compare a b =
     (case parse a of
        None \<Rightarrow> Inl (Error None (''Invalid Version: '' @ a))
      | Some x \<Rightarrow>
          (case parse b of
             None \<Rightarrow> Inl (Error None (''Invalid Version: '' @ b))
           | Some y \<Rightarrow> Inr (compare x y < 0)))"

text \<open>
  The parser and comparison of the package in strict mode, after its grammar: the string is
  trimmed, an optional leading \<open>v\<close>, three numeric identifiers without leading zeros,
  an optional prerelease after \<open>-\<close> and optional build metadata after \<open>+\<close>.
  Precedence ignores the build metadata. Numeric identifiers are exact integers here.
\<close>

datatype pre_identifier = Numeric int | Alphanumeric string

record SemVer =
  major :: int
  minor :: int
  patch :: int
  prerelease :: "pre_identifier list"
  build :: "string list"

definition is_digit :: "char \<Rightarrow> bool" where
  "is_digit c = (48 \<le> (of_char c :: nat) \<and> (of_char c :: nat) \<le> 57)"

definition is_ident_char :: "char \<Rightarrow> bool" where
  "is_ident_char c =
     (is_digit c \<or> (65 \<le> (of_char c :: nat) \<and> (of_char c :: nat) \<le> 90)
      \<or> (97 \<le> (of_char c :: nat) \<and> (of_char c :: nat) \<le> 122) \<or> c = CHR ''-'')"

definition is_space :: "char \<Rightarrow> bool" where
  "is_space c = ((of_char c :: nat) = 32 \<or> (9 \<le> (of_char c :: nat) \<and> (of_char c :: nat) \<le> 13))"

definition trim :: "string \<Rightarrow> string" where
  "trim s = rev (dropWhile is_space (rev (dropWhile is_space s)))"

fun split_on :: "char \<Rightarrow> string \<Rightarrow> string list" where
  "split_on d [] = [[]]"
| "split_on d (c # cs) =
     (if c = d then [] # split_on d cs
      else (case split_on d cs of
              [] \<Rightarrow> [[c]]
            | w # ws \<Rightarrow> (c # w) # ws))"

definition digits_value :: "string \<Rightarrow> int" where
  "digits_value s = foldl (\<lambda>n c. 10 * n + ((of_char c :: int) - 48)) 0 s"

definition MAX_SAFE_INTEGER :: int where
  "MAX_SAFE_INTEGER = 9007199254740991"

definition numeric_identifier :: "string \<Rightarrow> int option" where
  "numeric_identifier s =
     (if s \<noteq> [] \<and> list_all is_digit s \<and> (s = ''0'' \<or> hd s \<noteq> CHR ''0'')
      then Some (digits_value s) else None)"

definition prerelease_identifier :: "string \<Rightarrow> pre_identifier option" where
  "prerelease_identifier s =
     (case numeric_identifier s of
        Some n \<Rightarrow> Some (Numeric n)
      | None \<Rightarrow>
          if s \<noteq> [] \<and> list_all is_ident_char s \<and> \<not> list_all is_digit s
          then Some (Alphanumeric s) else None)"

definition build_identifier :: "string \<Rightarrow> string option" where
  "build_identifier s = (if s \<noteq> [] \<and> list_all is_ident_char s then Some s else None)"

fun all_some :: "'a option list \<Rightarrow> 'a list option" where
  "all_some [] = Some []"
| "all_some (None # xs) = None"
| "all_some (Some x # xs) = (case all_some xs of None \<Rightarrow> None | Some ys \<Rightarrow> Some (x # ys))"

definition split_first :: "char \<Rightarrow> string \<Rightarrow> string \<times> string option" where
  "split_first d s =
     (case dropWhile (\<lambda>c. c \<noteq> d) s of
        [] \<Rightarrow> (s, None)
      | c # rest \<Rightarrow> (takeWhile (\<lambda>c. c \<noteq> d) s, Some rest))"

definition parse_main :: "string \<Rightarrow> (int \<times> int \<times> int) option" where
  "parse_main s =
     (case all_some (map numeric_identifier (split_on CHR ''.'' s)) of
        Some [a, b, c] \<Rightarrow>
          if a \<le> MAX_SAFE_INTEGER \<and> b \<le> MAX_SAFE_INTEGER \<and> c \<le> MAX_SAFE_INTEGER
          then Some (a, b, c) else None
      | _ \<Rightarrow> None)"

definition parse_identifiers :: "(string \<Rightarrow> 'a option) \<Rightarrow> string option \<Rightarrow> 'a list option" where
  "parse_identifiers f part =
     (case part of
        None \<Rightarrow> Some []
      | Some s \<Rightarrow> all_some (map f (split_on CHR ''.'' s)))"

definition strip_v :: "string \<Rightarrow> string" where
  "strip_v s = (case s of [] \<Rightarrow> [] | c # cs \<Rightarrow> if c = CHR ''v'' then cs else c # cs)"

definition SemVer_parse :: "string \<Rightarrow> SemVer option" where
  "SemVer_parse raw =
     (if length raw > 256 then None
      else
        (case split_first CHR ''+'' (strip_v (trim raw)) of
           (body, build_part) \<Rightarrow>
             (case split_first CHR ''-'' body of
                (main_part, pre_part) \<Rightarrow>
                  (case parse_main main_part of
                     None \<Rightarrow> None
                   | Some (a, b, c) \<Rightarrow>
                       (case parse_identifiers prerelease_identifier pre_part of
                          None \<Rightarrow> None
                        | Some ids \<Rightarrow>
                            (case parse_identifiers build_identifier build_part of
                               None \<Rightarrow> None
                             | Some meta \<Rightarrow>
                                 Some \<lparr>major = a, minor = b, patch = c,
                                       prerelease = ids, build = meta\<rparr>))))))"

fun string_less :: "string \<Rightarrow> string \<Rightarrow> bool" where
  "string_less [] [] = False"
| "string_less [] (d # ds) = True"
| "string_less (c # cs) [] = False"
| "string_less (c # cs) (d # ds) =
     ((of_char c :: nat) < of_char d \<or> (c = d \<and> string_less cs ds))"

fun compareIdentifiers :: "pre_identifier \<Rightarrow> pre_identifier \<Rightarrow> int" where
  "compareIdentifiers (Numeric a) (Numeric b) = (if a = b then 0 else if a < b then - 1 else 1)"
| "compareIdentifiers (Numeric a) (Alphanumeric b) = - 1"
| "compareIdentifiers (Alphanumeric a) (Numeric b) = 1"
| "compareIdentifiers (Alphanumeric a) (Alphanumeric b) =
     (if a = b then 0 else if string_less a b then - 1 else 1)"

fun compare_identifiers :: "pre_identifier list \<Rightarrow> pre_identifier list \<Rightarrow> int" where
  "compare_identifiers [] [] = 0"
| "compare_identifiers (a # as) [] = 1"
| "compare_identifiers [] (b # bs) = - 1"
| "compare_identifiers (a # as) (b # bs) =
     (if a = b then compare_identifiers as bs else compareIdentifiers a b)"

definition compareNum :: "int \<Rightarrow> int \<Rightarrow> int" where
  "compareNum a b = (if a = b then 0 else if a < b then - 1 else 1)"

definition compareMain :: "SemVer \<Rightarrow> SemVer \<Rightarrow> int" where
  "compareMain x y =
     (if compareNum (major x) (major y) \<noteq> 0 then compareNum (major x) (major y)
      else if compareNum (minor x) (minor y) \<noteq> 0 then compareNum (minor x) (minor y)
      else compareNum (patch x) (patch y))"

definition comparePre :: "SemVer \<Rightarrow> SemVer \<Rightarrow> int" where
  "comparePre x y =
     (if prerelease x \<noteq> [] \<and> prerelease y = [] then - 1
      else if prerelease x = [] \<and> prerelease y \<noteq> [] then 1
      else if prerelease x = [] \<and> prerelease y = [] then 0
      else compare_identifiers (prerelease x) (prerelease y))"

definition SemVer_compare :: "SemVer \<Rightarrow> SemVer \<Rightarrow> int" where
  "SemVer_compare x y = (if compareMain x y \<noteq> 0 then compareMain x y else comparePre x y)"

section \<open>The plugin loader (\<open>loadPlugin\<close>, \<open>_loadPlugins\<close>, \<open>loadPlugins\<close>)\<close>

text \<open>
  A plugin is foreign code and may throw any value: one with properties, seen through its
  \<open>code\<close> and \<open>message\<close> where they are strings, or \<open>null\<close> or \<open>undefined\<close>,
  on which reading a property throws a \<open>TypeError\<close> in turn.
\<close>

datatype thrown = Thrown "string option" "string option" | Nullish

datatype log = LogDebug "string option" "(string \<times> string) list" | LogWarn "string option"

datatype plugin_effect = Readdir string | Require string | Activate string | Log log

record Dirent =
  dirent_name :: string
  isDirectory :: bool

text \<open>
  What the loader meets: how \<open>fs.readdir\<close> settles (Node rejects with an \<open>Error\<close>
  carrying a \<open>code\<close>), what \<open>require\<close> of a directory does (throws, or yields a
  module whose \<open>activate\<close> returns or throws; a module without \<open>activate\<close> throws a
  \<open>TypeError\<close> at the call), and the engine's message for reading a property of
  \<open>null\<close> or \<open>undefined\<close>.
\<close>

record plugin_environment =
  env_readdir :: "error + Dirent list"
  env_require :: "string \<Rightarrow> thrown + thrown option"
  env_type_error :: string

definition path_join :: "string \<Rightarrow> string \<Rightarrow> string" where
  "path_join dir file = dir @ ''/'' @ file"

definition basename :: "string \<Rightarrow> string" where
  "basename path = rev (takeWhile (\<lambda>c. c \<noteq> CHR ''/'') (rev path))"

text \<open>The \<open>try\<close> block of \<open>loadPlugin\<close>.\<close>

definition loadPlugin_try :: "plugin_environment \<Rightarrow> string \<Rightarrow> (thrown + unit) \<times> plugin_effect list" where
  "loadPlugin_try env pluginDir =
     (case env_require env pluginDir of
        Inl x \<Rightarrow> (Inl x, [Require pluginDir])
      | Inr (Some x) \<Rightarrow> (Inl x, [Require pluginDir, Activate pluginDir])
      | Inr None \<Rightarrow>
          (Inr (), [Require pluginDir, Activate pluginDir,
                    Log (LogDebug (Some ''Loaded plugin'') [(''name'', basename pluginDir)])]))"

text \<open>
  \<open>loadPlugin\<close>: in the \<open>catch\<close>, \<open>error.code\<close> on \<open>null\<close> or \<open>undefined\<close>
  throws, and the promise rejects with that \<open>TypeError\<close>.
\<close>

definition loadPlugin :: "plugin_environment \<Rightarrow> string \<Rightarrow> (thrown + unit) \<times> plugin_effect list" where
  "loadPlugin env pluginDir =
     (case loadPlugin_try env pluginDir of
        (Inr ok, t) \<Rightarrow> (Inr (), t)
      | (Inl Nullish, t) \<Rightarrow> (Inl (Thrown None (Some (env_type_error env))), t)
      | (Inl (Thrown c m), t) \<Rightarrow>
          if c \<noteq> Some ''MODULE_NOT_FOUND''
          then (Inr (), t @ [Log (LogWarn m)])
          else (Inr (), t @ [Log (LogDebug m [])]))"

text \<open>
  \<open>Promise.all\<close> over promises that have settled already: every one has run, and the
  first rejection in index order is the rejection of the whole.
\<close>

fun promise_all :: "((thrown + unit) \<times> plugin_effect list) list \<Rightarrow> (thrown + unit) \<times> plugin_effect list" where
  "promise_all [] = (Inr (), [])"
| "promise_all ((r, t) # rest) =
     (case promise_all rest of
        (r', t') \<Rightarrow> (case r of Inl x \<Rightarrow> (Inl x, t @ t') | Inr ok \<Rightarrow> (r', t @ t')))"

definition loadPlugins' :: "plugin_environment \<Rightarrow> string \<Rightarrow> (thrown + unit) \<times> plugin_effect list" where
  "loadPlugins' env pluginDir =
     (case env_readdir env of
        Inl e \<Rightarrow> (Inl (Thrown (code e) (Some (message e))), [Readdir pluginDir])
      | Inr files \<Rightarrow>
          apsnd ((#) (Readdir pluginDir))
            (promise_all
               (map (\<lambda>file. if \<not> isDirectory file then (Inr (), [])
                            else loadPlugin env (path_join pluginDir (dirent_name file)))
                  files)))"

definition loadPlugins :: "plugin_environment \<Rightarrow> string \<Rightarrow> (thrown + unit) \<times> plugin_effect list" where
  "loadPlugins env pluginDir =
     (case loadPlugins' env pluginDir of
        (Inr ok, t) \<Rightarrow> (Inr (), t)
      | (Inl Nullish, t) \<Rightarrow> (Inl (Thrown None (Some (env_type_error env))), t)
      | (Inl (Thrown c m), t) \<Rightarrow>
          if c \<noteq> Some ''ENOENT'' then (Inr (), t @ [Log (LogWarn m)]) else (Inr (), t))"

section \<open>The spec's notion of a redirect chain\<close>

text \<open>
  The URI of the \<open>k\<close>-th request of a fetch that starts at \<open>uri\<close>, and the statement
  that the first \<open>n\<close> requests are all answered by a redirect (a status in \<open>[300,400)\<close>
  with a location header).
\<close>

fun chain_uri :: "network \<Rightarrow> (string \<Rightarrow> string \<Rightarrow> string) \<Rightarrow> string \<Rightarrow> nat \<Rightarrow> string" where
  "chain_uri net resolve uri 0 = uri"
| "chain_uri net resolve uri (Suc k) =
     (case net k (chain_uri net resolve uri k) of
        Responds response \<Rightarrow>
          (case redirect_location response of
             None \<Rightarrow> chain_uri net resolve uri k
           | Some l \<Rightarrow> resolve (chain_uri net resolve uri k) l)
      | _ \<Rightarrow> chain_uri net resolve uri k)"

definition redirected :: "network \<Rightarrow> (string \<Rightarrow> string \<Rightarrow> string) \<Rightarrow> string \<Rightarrow> nat \<Rightarrow> bool" where
  "redirected net resolve uri k =
     (case net k (chain_uri net resolve uri k) of
        Responds response \<Rightarrow> redirect_location response \<noteq> None
      | _ \<Rightarrow> False)"

definition redirect_chain :: "network \<Rightarrow> (string \<Rightarrow> string \<Rightarrow> string) \<Rightarrow> string \<Rightarrow> nat \<Rightarrow> bool" where
  "redirect_chain net resolve uri n = list_all (redirected net resolve uri) [0..<n]"




section \<open>Concrete collaborators\<close>

text \<open>
  A server that answers the first \<open>n\<close> requests with a redirect and the next with the
  release payload in two chunks; a server that answers 301 without a location header; one
  that answers 404; a network that refuses the connection; a server that answers with a
  page; a server that redirects to an \<open>ftp:\<close> URI, on which \<open>https.get\<close> throws;
  \<open>url.resolve\<close> on absolute locations; \<open>JSON.parse\<close> on the release payload; a
  store whose \<open>write\<close> settles in a given way.
\<close>

definition resolve_absolute :: "string \<Rightarrow> string \<Rightarrow> string" where
  "resolve_absolute uri l = l"

definition redirect_response :: IncomingMessage where
  "redirect_response =
     \<lparr>statusCode = Some 302, location = Some ''https://example.com/next'', stream = Inr []\<rparr>"

definition final_response :: IncomingMessage where
  \<open>final_response =
     \<lparr>statusCode = Some 200, location = None, stream = Inr [''{"name":'', ''"1.3.0"}'']\<rparr>\<close>

definition redirecting_net :: "nat \<Rightarrow> network" where
  "redirecting_net n k uri = Responds (if k < n then redirect_response else final_response)"

definition moved_response :: IncomingMessage where
  "moved_response = \<lparr>statusCode = Some 301, location = None, stream = Inr []\<rparr>"

definition moved_net :: network where
  "moved_net k uri = Responds moved_response"

definition not_found_response :: IncomingMessage where
  "not_found_response = \<lparr>statusCode = Some 404, location = None, stream = Inr []\<rparr>"

definition not_found_net :: network where
  "not_found_net k uri = Responds not_found_response"

definition refusing_net :: network where
  "refusing_net k uri = Fails (Error (Some ''ECONNREFUSED'') ''connect ECONNREFUSED'')"

definition page_response :: IncomingMessage where
  "page_response = \<lparr>statusCode = Some 200, location = None, stream = Inr [''<html>'']\<rparr>"

definition page_net :: network where
  "page_net k uri = Responds page_response"

definition ftp_response :: IncomingMessage where
  "ftp_response =
     \<lparr>statusCode = Some 302, location = Some ''ftp://example.com/latest'', stream = Inr []\<rparr>"

definition invalid_protocol :: error where
  \<open>invalid_protocol =
     Error (Some ''ERR_INVALID_PROTOCOL'') ''Protocol "ftp:" not supported. Expected "https:"''\<close>

definition ftp_net :: network where
  "ftp_net k uri =
     (if take 4 uri = ''ftp:'' then Throws invalid_protocol else Responds ftp_response)"

definition parse_release :: "string \<Rightarrow> error + LatestResponse" where
  \<open>parse_release body =
     (if body = ''{"name":"1.3.0"}'' then Inr \<lparr>name = ''1.3.0''\<rparr>
      else Inl (Error None ''Unexpected token''))\<close>

definition write_settles :: "error option \<Rightarrow> Update \<Rightarrow> error option" where
  "write_settles r u = r"

definition example_env :: "int \<Rightarrow> error + Update option \<Rightarrow> network \<Rightarrow> error option \<Rightarrow> environment" where
  "example_env now rd net wr =
     \<lparr>env_now = now, env_read = rd, env_net = net,
      env_resolve = resolve_absolute, env_parse = parse_release, env_write = write_settles wr\<rparr>"

definition example_url :: string where
  "example_url = ''https://api.github.com/repos/cdr/code-server/releases/latest''"

definition example_provider :: "bool \<Rightarrow> UpdateHttpProvider" where
  "example_provider en = \<lparr>enabled = en, latestUrl = example_url, update = None\<rparr>"

definition cached_record :: Update where
  "cached_record = \<lparr>checked = 0, version = ''1.2.0''\<rparr>"

text \<open>
  Environments of one check: a cached record exactly 24 hours old, one a millisecond
  older, an empty store, a store whose read rejects, a store whose write rejects, a
  network that refuses the connection, a server that answers with a page, and a server
  that redirects to an \<open>ftp:\<close> URI.
\<close>

definition boundary_env :: environment where
  "boundary_env = example_env 86400000 (Inr (Some cached_record)) (redirecting_net 0) None"

definition stale_env :: environment where
  "stale_env = example_env 86400001 (Inr (Some cached_record)) (redirecting_net 0) None"

definition empty_env :: environment where
  "empty_env = example_env 5 (Inr None) (redirecting_net 0) None"

definition unreadable_env :: environment where
  "unreadable_env =
     example_env 5 (Inl (Error (Some ''EIO'') ''i/o error'')) (redirecting_net 0) None"

definition unwritable_env :: environment where
  "unwritable_env =
     example_env 5 (Inr None) (redirecting_net 0)
       (Some (Error (Some ''EACCES'') ''permission denied''))"

definition refused_env :: environment where
  "refused_env = example_env 5 (Inr None) refusing_net None"

definition page_env :: environment where
  "page_env = example_env 5 (Inr None) page_net None"

definition ftp_env :: environment where
  "ftp_env = example_env 5 (Inr None) ftp_net None"

text \<open>
  Plugin directories: one with a module that loads, one that is no module, one whose
  \<open>activate\<close> throws an error, one whose \<open>activate\<close> requires a module that is
  missing, two whose \<open>activate\<close> throws \<open>null\<close> and one whose module does not
  compile; and three outcomes of the directory scan.
\<close>

definition plugins_dir :: string where
  "plugins_dir = ''/srv/code-server/plugins''"

definition example_require :: "string \<Rightarrow> thrown + thrown option" where
  "example_require dir =
     (if dir = ''/srv/code-server/plugins/good'' then Inr None
      else if dir = ''/srv/code-server/plugins/broken''
      then Inr (Some (Thrown None (Some ''activate failed'')))
      else if dir = ''/srv/code-server/plugins/lazy''
      then Inr (Some (Thrown (Some ''MODULE_NOT_FOUND'') (Some ''Cannot find module'')))
      else if dir = ''/srv/code-server/plugins/null'' then Inr (Some Nullish)
      else if dir = ''/srv/code-server/plugins/void'' then Inr (Some Nullish)
      else if dir = ''/srv/code-server/plugins/garbled''
      then Inl (Thrown None (Some ''Unexpected token''))
      else Inl (Thrown (Some ''MODULE_NOT_FOUND'') (Some ''Cannot find module'')))"

definition example_plugins :: plugin_environment where
  "example_plugins =
     \<lparr>env_readdir =
        Inr [\<lparr>dirent_name = ''static'', isDirectory = True\<rparr>,
             \<lparr>dirent_name = ''null'', isDirectory = True\<rparr>,
             \<lparr>dirent_name = ''README.md'', isDirectory = False\<rparr>,
             \<lparr>dirent_name = ''broken'', isDirectory = True\<rparr>,
             \<lparr>dirent_name = ''void'', isDirectory = True\<rparr>,
             \<lparr>dirent_name = ''good'', isDirectory = True\<rparr>],
      env_require = example_require,
      env_type_error = ''Cannot read property code of null''\<rparr>"

definition missing_plugins :: plugin_environment where
  "missing_plugins =
     \<lparr>env_readdir = Inl (Error (Some ''ENOENT'') ''ENOENT: no such file or directory''),
      env_require = example_require,
      env_type_error = ''Cannot read property code of null''\<rparr>"

definition unreadable_plugins :: plugin_environment where
  "unreadable_plugins =
     \<lparr>env_readdir = Inl (Error (Some ''EACCES'') ''EACCES: permission denied''),
      env_require = example_require,
      env_type_error = ''Cannot read property code of null''\<rparr>"

section \<open>Properties of the fetch client\<close>

lemma requestResponse_request_first:
  "\<exists>t. snd (requestResponse_request net resolve k uri) = HttpGet uri # t"
  by (induction net resolve k uri rule: requestResponse_request.induct)
     (subst requestResponse_request.simps, auto split: answer.splits option.splits)

lemma requestResponse_request_network:
  "list_all is_network (snd (requestResponse_request net resolve k uri))"
  by (induction net resolve k uri rule: requestResponse_request.induct)
     (subst requestResponse_request.simps, auto split: answer.splits option.splits)

lemma fst_request:
  "fst (request net resolve uri) =
     (case fst (requestResponse_request net resolve 0 uri) of
        Rejected e \<Rightarrow> Rejected e
      | Unsettled \<Rightarrow> Unsettled
      | Fulfilled response \<Rightarrow>
          (case stream response of
             Inl e \<Rightarrow> Rejected e
           | Inr chunks \<Rightarrow> Fulfilled (concat chunks)))"
  by (simp add: request_def requestResponse_def split: prod.splits promise.splits sum.splits)

lemma snd_request:
  "snd (request net resolve uri) = snd (requestResponse_request net resolve 0 uri)"
  by (simp add: request_def requestResponse_def split: prod.splits promise.splits sum.splits)

lemma redirect_step:
  assumes "net k uri = Responds response" and "redirect_location response = Some l"
      and "k < maxRedirects"
  shows "requestResponse_request net resolve k uri =
           apsnd ((#) (HttpGet uri))
             (requestResponse_request net resolve (Suc k) (resolve uri l))"
  using assms by (subst requestResponse_request.simps) simp

lemma redirect_chain_nth:
  "redirect_chain net resolve uri n \<Longrightarrow> k < n \<Longrightarrow> redirected net resolve uri k"
  by (simp add: redirect_chain_def list_all_iff)


lemma redirectedE:
  assumes "redirected net resolve uri k"
  obtains response l where "net k (chain_uri net resolve uri k) = Responds response"
      and "redirect_location response = Some l"
      and "chain_uri net resolve uri (Suc k) = resolve (chain_uri net resolve uri k) l"
  using assms by (auto simp: redirected_def split: answer.splits)

text \<open>Along a chain of redirects the loop arrives at the \<open>k\<close>-th URI with counter \<open>k\<close>.\<close>

lemma follow_chain:
  assumes "redirect_chain net resolve uri n"
  shows "k \<le> n \<Longrightarrow> k \<le> maxRedirects \<Longrightarrow>
         fst (requestResponse_request net resolve 0 uri) =
         fst (requestResponse_request net resolve k (chain_uri net resolve uri k))"
proof (induction k)
  case 0
  show ?case by simp
next
  case (Suc k)
  from Suc.prems have k: "k < n" "k < maxRedirects" by simp_all
  from redirect_chain_nth[OF assms k(1)]
  obtain response l where r: "net k (chain_uri net resolve uri k) = Responds response"
      "redirect_location response = Some l"
      "chain_uri net resolve uri (Suc k) = resolve (chain_uri net resolve uri k) l"
    by (rule redirectedE)
  from redirect_step[where net = net and k = k and uri = "chain_uri net resolve uri k"
         and resolve = resolve, OF r(1,2) k(2)] r(3) Suc.IH k
  show ?case by simp
qed

lemma too_many_redirects:
  assumes "redirect_chain net resolve uri n" and "maxRedirects < n"
  shows "fst (requestResponse_request net resolve 0 uri)
           = Rejected (Error None ''reached max redirects'')"
proof -
  have "redirected net resolve uri maxRedirects"
    using redirect_chain_nth[OF assms] .
  then obtain response l where
    r: "net maxRedirects (chain_uri net resolve uri maxRedirects) = Responds response"
       "redirect_location response = Some l"
    by (rule redirectedE)
  have "fst (requestResponse_request net resolve maxRedirects
               (chain_uri net resolve uri maxRedirects))
          = Rejected (Error None ''reached max redirects'')"
    using r by (subst requestResponse_request.simps) simp
  with follow_chain[OF assms(1), of maxRedirects] assms(2) show ?thesis by simp
qed

lemma terminal_after_chain:
  assumes "redirect_chain net resolve uri n" and "n \<le> maxRedirects"
      and "net n (chain_uri net resolve uri n) = Responds response"
      and "redirect_location response = None" and "\<not> bad_status response"
  shows "fst (requestResponse_request net resolve 0 uri) = Fulfilled response"
proof -
  have "fst (requestResponse_request net resolve n (chain_uri net resolve uri n))
          = Fulfilled response"
    using assms(3-5) by (subst requestResponse_request.simps) simp
  with follow_chain[OF assms(1), of n] assms(2) show ?thesis by simp
qed





lemma redirected_redirecting_net:
  "redirected (redirecting_net n) resolve uri k = (k < n)"
  by (simp add: redirected_def redirecting_net_def redirect_response_def final_response_def
        redirect_location_def)

lemma redirect_chain_redirecting_net:
  "redirect_chain (redirecting_net n) resolve uri n"
  by (simp add: redirect_chain_def list_all_iff redirected_redirecting_net)

text \<open>The fetch against the concrete servers.\<close>

lemma request_redirecting_net_0:
  \<open>request (redirecting_net 0) resolve_absolute example_url
     = (Fulfilled ''{"name":"1.3.0"}'', [HttpGet example_url])\<close>
  by (simp add: request_def requestResponse_def requestResponse_request.simps
        redirecting_net_def final_response_def redirect_location_def bad_status_def)

lemma request_refusing_net:
  "request refusing_net resolve_absolute example_url
     = (Rejected (Error (Some ''ECONNREFUSED'') ''connect ECONNREFUSED''), [HttpGet example_url])"
  by (simp add: request_def requestResponse_def requestResponse_request.simps refusing_net_def)

lemma request_page_net:
  "request page_net resolve_absolute example_url = (Fulfilled ''<html>'', [HttpGet example_url])"
  by (simp add: request_def requestResponse_def requestResponse_request.simps page_net_def
        page_response_def redirect_location_def bad_status_def)

text \<open>
  A server that redirects to an \<open>ftp:\<close> URI: the second call of \<open>https.get\<close> throws in the
  response callback, and the promise of the fetch stays pending.
\<close>

lemma request_ftp_net:
  "request ftp_net resolve_absolute example_url
     = (Unsettled, [HttpGet example_url, HttpGet ''ftp://example.com/latest''])"
  by (simp add: request_def requestResponse_def requestResponse_request.simps ftp_net_def
        ftp_response_def redirect_location_def maxRedirects_def example_url_def
        resolve_absolute_def)


text \<open>
  Claim C5. A fetch whose first \<open>n\<close> requests are answered by redirects and whose next
  request is answered by status 200 returns the gathered body when \<open>n\<close> is at most 10;
  a fetch whose first \<open>n\<close> requests are answered by redirects fails with
  \<open>reached max redirects\<close> when \<open>n\<close> is above 10. So ten redirects pass and the
  eleventh fails: the fetch fails on the count exactly when the counter exceeds 10.
\<close>

theorem redirect_bound:
  "(redirect_chain net resolve uri n \<and> n \<le> 10 \<and>
      net n (chain_uri net resolve uri n) = Responds response \<and>
      statusCode response = Some 200 \<and> stream response = Inr chunks
      \<longrightarrow> fst (request net resolve uri) = Fulfilled (concat chunks))
   \<and> (redirect_chain net resolve uri n \<and> 10 < n
      \<longrightarrow> fst (request net resolve uri) = Rejected (Error None ''reached max redirects''))"
proof (intro conjI impI)
  assume a: "redirect_chain net resolve uri n \<and> n \<le> 10 \<and>
      net n (chain_uri net resolve uri n) = Responds response \<and>
      statusCode response = Some 200 \<and> stream response = Inr chunks"
  then have "redirect_location response = None" "\<not> bad_status response"
    by (simp_all add: redirect_location_def bad_status_def)
  with a have "fst (requestResponse_request net resolve 0 uri) = Fulfilled response"
    by (intro terminal_after_chain[where n = n]) (simp_all add: maxRedirects_def)
  with a show "fst (request net resolve uri) = Fulfilled (concat chunks)"
    by (simp add: fst_request)
next
  assume a: "redirect_chain net resolve uri n \<and> 10 < n"
  then have "fst (requestResponse_request net resolve 0 uri)
               = Rejected (Error None ''reached max redirects'')"
    by (intro too_many_redirects[where n = n]) (simp_all add: maxRedirects_def)
  then show "fst (request net resolve uri) = Rejected (Error None ''reached max redirects'')"
    by (simp add: fst_request)
qed

theorem redirect_bound_witness:
  \<open>fst (request (redirecting_net 10) resolve_absolute example_url)
     = Fulfilled ''{"name":"1.3.0"}''
   \<and> fst (request (redirecting_net 11) resolve_absolute example_url)
       = Rejected (Error None ''reached max redirects'')\<close>
proof -
  have t: "redirecting_net 10 10 (chain_uri (redirecting_net 10) resolve_absolute example_url 10)
             = Responds final_response"
    by (simp add: redirecting_net_def)
  have s: "statusCode final_response = Some 200"
    \<open>stream final_response = Inr [''{"name":'', ''"1.3.0"}'']\<close>
    by (simp_all add: final_response_def)
  from redirect_bound[of "redirecting_net 10" resolve_absolute example_url 10 final_response
         \<open>[''{"name":'', ''"1.3.0"}'']\<close>] redirect_chain_redirecting_net t s
  have a: \<open>fst (request (redirecting_net 10) resolve_absolute example_url)
             = Fulfilled ''{"name":"1.3.0"}''\<close>
    by simp
  from redirect_bound[of "redirecting_net 11" resolve_absolute example_url 11 final_response "[]"]
    redirect_chain_redirecting_net
  have b: "fst (request (redirecting_net 11) resolve_absolute example_url)
             = Rejected (Error None ''reached max redirects'')"
    by simp
  from a b show ?thesis by simp
qed

text \<open>
  Claim C6, as the code has it. For a response received at the \<open>k\<close>-th request: a missing
  status, a status below 200 or a status of 400 or more fails with the message
  \<open>uri: status\<close> (\<open>500\<close> standing in for a missing or zero status); a status in
  \<open>[200,300)\<close> is accepted; a status in \<open>[300,400)\<close> with a non-empty location header
  is followed by a request to the resolved location (or fails on the redirect bound);
  and a status in \<open>[300,400)\<close> without a location header, or with an empty one, is
  accepted as the terminal response.
\<close>

theorem response_classification:
  "net k uri = Responds response \<longrightarrow>
     requestResponse_request net resolve k uri =
       (case statusCode response of
          None \<Rightarrow> (Rejected (Error None (uri @ '': 500'')), [HttpGet uri])
        | Some c \<Rightarrow>
            if c < 200 \<or> 400 \<le> c
            then (Rejected (Error None (uri @ '': '' @ (if c = 0 then ''500'' else show_nat c))),
                  [HttpGet uri])
            else if c < 300 then (Fulfilled response, [HttpGet uri])
            else (case location response of
                    None \<Rightarrow> (Fulfilled response, [HttpGet uri])
                  | Some l \<Rightarrow>
                      if l = [] then (Fulfilled response, [HttpGet uri])
                      else if k < 10
                      then apsnd ((#) (HttpGet uri))
                             (requestResponse_request net resolve (Suc k) (resolve uri l))
                      else (Rejected (Error None ''reached max redirects''), [HttpGet uri])))"
  by (subst requestResponse_request.simps)
     (auto simp: redirect_location_def bad_status_def status_message_def maxRedirects_def
           split: option.splits)

theorem response_classification_witness:
  "requestResponse_request not_found_net resolve_absolute 0 ''http://localhost/latest''
     = (Rejected (Error None ''http://localhost/latest: 404''),
        [HttpGet ''http://localhost/latest''])"
  using response_classification[of not_found_net 0 "''http://localhost/latest''"
          not_found_response resolve_absolute]
  by (simp add: not_found_net_def not_found_response_def digit_char_def)

text \<open>
  Claim C6 as stated fails: a response with status 301 and no location header passes both
  tests of the callback and resolves the promise.
\<close>

theorem moved_without_location_counterexample:
  "statusCode moved_response = Some 301 \<and> location moved_response = None
   \<and> fst (requestResponse moved_net resolve_absolute example_url) = Fulfilled moved_response"
  by (simp add: requestResponse_def requestResponse_request.simps moved_net_def
        moved_response_def redirect_location_def bad_status_def)

section \<open>Properties of the check operation\<close>

lemma request_first: "\<exists>t. snd (request net resolve uri) = HttpGet uri # t"
  by (simp add: snd_request requestResponse_request_first)

lemma request_network: "list_all is_network (snd (request net resolve uri))"
  by (simp add: snd_request requestResponse_request_network)

lemma network_no_write: "list_all is_network t \<Longrightarrow> filter is_write t = []"
  by (induction t) (auto elim: is_network.elims)

lemma network_no_read: "list_all is_network t \<Longrightarrow> SettingsRead \<notin> set t"
  by (induction t) auto

lemma fetch_latest_cases:
  "fetch_latest uri env t =
     (case fst (request (env_net env) (env_resolve env) uri) of
        Rejected e \<Rightarrow> (Rejected e, t @ snd (request (env_net env) (env_resolve env) uri))
      | Unsettled \<Rightarrow> (Unsettled, t @ snd (request (env_net env) (env_resolve env) uri))
      | Fulfilled buffer \<Rightarrow>
          (case env_parse env buffer of
             Inl e \<Rightarrow> (Rejected e, t @ snd (request (env_net env) (env_resolve env) uri))
           | Inr data \<Rightarrow>
               (case env_write env \<lparr>checked = env_now env, version = name data\<rparr> of
                  Some e \<Rightarrow>
                    (Rejected e, t @ snd (request (env_net env) (env_resolve env) uri)
                              @ [SettingsWrite \<lparr>checked = env_now env, version = name data\<rparr>])
                | None \<Rightarrow>
                    (Fulfilled \<lparr>checked = env_now env, version = name data\<rparr>,
                     t @ snd (request (env_net env) (env_resolve env) uri)
                       @ [SettingsWrite \<lparr>checked = env_now env, version = name data\<rparr>]))))"
  by (simp add: fetch_latest_def Let_def
        split: prod.splits promise.splits sum.splits option.splits)

lemma fetch_latest_fetches: "HttpGet uri \<in> set (snd (fetch_latest uri env t))"
  using request_first[of "env_net env" "env_resolve env" uri]
  by (auto simp: fetch_latest_cases split: promise.splits sum.splits option.splits)

lemma fetch_latest_no_read:
  "SettingsRead \<in> set (snd (fetch_latest uri env t)) \<longleftrightarrow> SettingsRead \<in> set t"
  using network_no_read[OF request_network[of "env_net env" "env_resolve env" uri]]
  by (auto simp: fetch_latest_cases split: promise.splits sum.splits option.splits)

lemma fetch_latest_starts:
  "\<exists>t'. snd (fetch_latest uri env t) = t @ HttpGet uri # t'"
  using request_first[of "env_net env" "env_resolve env" uri]
  by (auto simp: fetch_latest_cases split: promise.splits sum.splits option.splits)

lemma getUpdate'_forced:
  "getUpdate' uri env True =
     catch env (fetch_latest uri env [])"
  by (simp add: getUpdate'_def catch_def getUpdate_try_def read_update_def)

lemma getUpdate'_read_failed:
  "env_read env = Inl e \<Longrightarrow> getUpdate' uri env False = (Fulfilled (fallback env), [SettingsRead])"
  by (simp add: getUpdate'_def catch_def getUpdate_try_def read_update_def)

lemma getUpdate'_fresh:
  "env_read env = Inr (Some u) \<Longrightarrow> \<not> checked u + updateInterval < env_now env \<Longrightarrow>
     getUpdate' uri env False = (Fulfilled u, [SettingsRead])"
  by (simp add: getUpdate'_def catch_def getUpdate_try_def read_update_def)

lemma getUpdate'_stale:
  "env_read env = Inr r \<Longrightarrow>
   r = None \<or> (\<exists>u. r = Some u \<and> checked u + updateInterval < env_now env) \<Longrightarrow>
     getUpdate' uri env False = catch env (fetch_latest uri env [SettingsRead])"
  by (auto simp: getUpdate'_def catch_def getUpdate_try_def read_update_def)

lemma snd_catch: "snd (catch env x) = snd x"
  by (simp add: catch_def split: prod.splits promise.splits)

text \<open>
  Claim C1, as the code has it. A forced check does not read the store and issues the
  fetch. An unforced check whose read yields a record of age \<open>now - checked\<close> at most
  the interval of 24 hours returns that record with no effect but the read; when the read
  succeeds, the fetch is issued exactly when there is no record or its age exceeds the
  interval; when the read fails, nothing is fetched and the fallback is returned.
\<close>

theorem getUpdate_fetch_decision:
  "(force \<longrightarrow>
      SettingsRead \<notin> set (snd (getUpdate' uri env force))
      \<and> HttpGet uri \<in> set (snd (getUpdate' uri env force)))
   \<and> (\<not> force \<and> env_read env = Inr (Some u) \<and> env_now env - checked u \<le> updateInterval
        \<longrightarrow> getUpdate' uri env force = (Fulfilled u, [SettingsRead]))
   \<and> (\<not> force \<and> env_read env = Inr r
        \<longrightarrow> (HttpGet uri \<in> set (snd (getUpdate' uri env force)))
             = (r = None \<or> (\<exists>v. r = Some v \<and> updateInterval < env_now env - checked v)))
   \<and> (\<not> force \<and> env_read env = Inl e
        \<longrightarrow> getUpdate' uri env force = (Fulfilled (fallback env), [SettingsRead]))"
proof -
  have c1: "force \<longrightarrow>
      SettingsRead \<notin> set (snd (getUpdate' uri env force))
      \<and> HttpGet uri \<in> set (snd (getUpdate' uri env force))"
    by (simp add: getUpdate'_forced snd_catch fetch_latest_fetches fetch_latest_no_read)
  have c2: "\<not> force \<and> env_read env = Inr (Some u) \<and> env_now env - checked u \<le> updateInterval
        \<longrightarrow> getUpdate' uri env force = (Fulfilled u, [SettingsRead])"
    by (simp add: getUpdate'_fresh)
  have c3: "\<not> force \<and> env_read env = Inr r
        \<longrightarrow> (HttpGet uri \<in> set (snd (getUpdate' uri env force)))
             = (r = None \<or> (\<exists>v. r = Some v \<and> updateInterval < env_now env - checked v))"
  proof (cases "r = None \<or> (\<exists>v. r = Some v \<and> checked v + updateInterval < env_now env)")
    case True
    then have "r = None \<or> (\<exists>v. r = Some v \<and> updateInterval < env_now env - checked v)"
      by auto
    with True show ?thesis
      by (auto simp: getUpdate'_stale snd_catch fetch_latest_fetches simp del: not_None_eq)
  next
    case False
    then obtain v where v: "r = Some v" "\<not> checked v + updateInterval < env_now env"
      by auto
    then have "\<not> updateInterval < env_now env - checked v" by arith
    with v show ?thesis by (auto simp: getUpdate'_fresh)
  qed
  have c4: "\<not> force \<and> env_read env = Inl e
        \<longrightarrow> getUpdate' uri env force = (Fulfilled (fallback env), [SettingsRead])"
    by (simp add: getUpdate'_read_failed)
  show ?thesis
    by (rule conjI, fact c1, rule conjI, fact c2, rule conjI, fact c3, fact c4)
qed

theorem getUpdate_fetch_decision_witness:
  "SettingsRead \<notin> set (snd (getUpdate' example_url stale_env True))
   \<and> HttpGet example_url \<in> set (snd (getUpdate' example_url stale_env True))
   \<and> getUpdate' example_url boundary_env False = (Fulfilled cached_record, [SettingsRead])
   \<and> HttpGet example_url \<in> set (snd (getUpdate' example_url stale_env False))
   \<and> HttpGet example_url \<in> set (snd (getUpdate' example_url empty_env False))
   \<and> getUpdate' example_url unreadable_env False
       = (Fulfilled \<lparr>checked = 5, version = ''unknown''\<rparr>, [SettingsRead])"
proof -
  note d = example_env_def cached_record_def updateInterval_def fallback_def
    boundary_env_def stale_env_def empty_env_def unreadable_env_def
  have a: "SettingsRead \<notin> set (snd (getUpdate' example_url stale_env True))
   \<and> HttpGet example_url \<in> set (snd (getUpdate' example_url stale_env True))"
    using getUpdate_fetch_decision[of True example_url stale_env]
    by simp
  have b: "getUpdate' example_url boundary_env False = (Fulfilled cached_record, [SettingsRead])"
    using getUpdate_fetch_decision[of False example_url boundary_env cached_record]
    by (simp add: d)
  have c: "HttpGet example_url \<in> set (snd (getUpdate' example_url stale_env False))"
    using getUpdate_fetch_decision[of False example_url stale_env _ "Some cached_record"]
    by (simp add: d)
  have c': "HttpGet example_url \<in> set (snd (getUpdate' example_url empty_env False))"
    using getUpdate_fetch_decision[of False example_url empty_env _ None]
    by (simp add: d)
  have e: "getUpdate' example_url unreadable_env False
       = (Fulfilled \<lparr>checked = 5, version = ''unknown''\<rparr>, [SettingsRead])"
    using getUpdate_fetch_decision[of False example_url unreadable_env _ _
            "Error (Some ''EIO'') ''i/o error''"]
    by (simp add: d)
  from a b c c' e show ?thesis by simp
qed

text \<open>
  Claim C1 as stated fails at the boundary: a record whose age equals the interval is at
  least as old as the TTL, yet \<open>checked + updateInterval < now\<close> is false and the record
  is returned without a fetch.
\<close>

theorem ttl_boundary_counterexample:
  "updateInterval \<le> env_now boundary_env - checked cached_record
   \<and> env_read boundary_env = Inr (Some cached_record)
   \<and> getUpdate' example_url boundary_env False = (Fulfilled cached_record, [SettingsRead])"
  by (simp add: boundary_env_def example_env_def cached_record_def updateInterval_def
        getUpdate'_def catch_def getUpdate_try_def read_update_def)

lemma request_no_write: "filter is_write (snd (request net resolve uri)) = []"
  by (rule network_no_write[OF request_network])

lemma fetch_latest_writes:
  "filter is_write (snd (fetch_latest uri env t)) =
     filter is_write t @
     (case fst (request (env_net env) (env_resolve env) uri) of
        Fulfilled buffer \<Rightarrow>
          (case env_parse env buffer of
             Inl e \<Rightarrow> []
           | Inr data \<Rightarrow> [SettingsWrite \<lparr>checked = env_now env, version = name data\<rparr>])
      | _ \<Rightarrow> [])"
  using network_no_write[OF request_network[of "env_net env" "env_resolve env" uri]]
  by (simp add: fetch_latest_cases split: promise.splits sum.splits option.splits)

lemma snd_getUpdate': "snd (getUpdate' uri env force) = snd (getUpdate_try uri env force)"
  by (simp add: getUpdate'_def catch_def split: prod.splits promise.splits)


text \<open>The shapes of \<open>getUpdate_try\<close>: no fetch, or the fetch after the effects of the read.\<close>

lemma getUpdate_try_cases:
  obtains (read_failed) e where "\<not> force" "env_read env = Inl e"
      "getUpdate_try uri env force = (Rejected e, [SettingsRead])"
  | (fresh) u where "\<not> force" "env_read env = Inr (Some u)"
      "\<not> checked u + updateInterval < env_now env"
      "getUpdate_try uri env force = (Fulfilled u, [SettingsRead])"
  | (fetch) t where "t = (if force then [] else [SettingsRead])"
      "getUpdate_try uri env force = fetch_latest uri env t"
proof (cases force)
  case True
  then show ?thesis using fetch[of "[]"]
    by (simp add: getUpdate_try_def read_update_def)
next
  case False
  show ?thesis
  proof (cases "env_read env")
    case (Inl e)
    with False show ?thesis using read_failed[of e]
      by (simp add: getUpdate_try_def read_update_def)
  next
    case (Inr r)
    show ?thesis
    proof (cases r)
      case None
      with False Inr show ?thesis using fetch[of "[SettingsRead]"]
        by (simp add: getUpdate_try_def read_update_def)
    next
      case (Some u)
      with False Inr show ?thesis using fetch[of "[SettingsRead]"] fresh[of u]
        by (cases "checked u + updateInterval < env_now env")
           (simp_all add: getUpdate_try_def read_update_def)
    qed
  qed
qed

text \<open>
  Claim C4, as the code has it. A check that fails at the read of the store, at the fetch
  or at the parse writes nothing. A check writes at most once, and what it writes is the
  newly built record \<open>{ checked: now, version: data.name }\<close>, after the fetch and the
  parse have succeeded. A check that returns a fetched record has written exactly that
  record, once. A failed check has written only if the failure is that of the write itself.
\<close>

theorem getUpdate_store_writes:
  "(\<not> force \<and> env_read env = Inl e1
      \<longrightarrow> filter is_write (snd (getUpdate' uri env force)) = [])
   \<and> (fst (request (env_net env) (env_resolve env) uri) = Rejected e2
      \<longrightarrow> filter is_write (snd (getUpdate' uri env force)) = [])
   \<and> (fst (request (env_net env) (env_resolve env) uri) = Fulfilled body
        \<and> env_parse env body = Inl e3
      \<longrightarrow> filter is_write (snd (getUpdate' uri env force)) = [])
   \<and> (filter is_write (snd (getUpdate' uri env force)) = []
      \<or> (\<exists>buffer data.
            fst (request (env_net env) (env_resolve env) uri) = Fulfilled buffer
            \<and> env_parse env buffer = Inr data
            \<and> filter is_write (snd (getUpdate' uri env force))
                = [SettingsWrite \<lparr>checked = env_now env, version = name data\<rparr>]))
   \<and> (fst (getUpdate_try uri env force) = Fulfilled u
        \<and> HttpGet uri \<in> set (snd (getUpdate' uri env force))
      \<longrightarrow> filter is_write (snd (getUpdate' uri env force)) = [SettingsWrite u])
   \<and> (fst (getUpdate_try uri env force) = Rejected e
        \<and> filter is_write (snd (getUpdate' uri env force)) \<noteq> []
      \<longrightarrow> (\<exists>w. env_write env w = Some e
               \<and> filter is_write (snd (getUpdate' uri env force)) = [SettingsWrite w]))"
  (is "?A \<and> ?B \<and> ?C \<and> ?D \<and> ?E \<and> ?F")
proof -
  note s = snd_getUpdate' fetch_latest_writes fetch_latest_cases request_no_write
  have a: ?A by (simp add: getUpdate'_read_failed)
  have d: ?D
    by (cases rule: getUpdate_try_cases[of force env uri])
       (auto simp: snd_getUpdate' fetch_latest_writes split: promise.splits sum.splits)
  have b: ?B using d by auto
  have c: ?C using d by auto
  have e: ?E
    by (cases rule: getUpdate_try_cases[of force env uri])
       (auto simp: s split: promise.splits sum.splits option.splits)
  have f: ?F
    by (cases rule: getUpdate_try_cases[of force env uri])
       (auto simp: s split: promise.splits sum.splits option.splits)
  show ?thesis
    by (rule conjI, fact a, rule conjI, fact b, rule conjI, fact c, rule conjI, fact d,
        rule conjI, fact e, fact f)
qed

theorem getUpdate_store_writes_witness:
  "filter is_write (snd (getUpdate' example_url unreadable_env False)) = []
   \<and> filter is_write (snd (getUpdate' example_url refused_env False)) = []
   \<and> filter is_write (snd (getUpdate' example_url page_env False)) = []
   \<and> filter is_write (snd (getUpdate' example_url empty_env False))
     = [SettingsWrite \<lparr>checked = 5, version = ''1.3.0''\<rparr>]
   \<and> filter is_write (snd (getUpdate' example_url unwritable_env False))
     = [SettingsWrite \<lparr>checked = 5, version = ''1.3.0''\<rparr>]"
proof -
  note d = example_env_def write_settles_def parse_release_def
  note r = request_redirecting_net_0
  let ?eio = "Error (Some ''EIO'') ''i/o error''"
  let ?refused = "Error (Some ''ECONNREFUSED'') ''connect ECONNREFUSED''"
  let ?token = "Error None ''Unexpected token''"
  let ?denied = "Error (Some ''EACCES'') ''permission denied''"
  let ?new = "\<lparr>checked = 5, version = ''1.3.0''\<rparr>"
  have t1: "getUpdate_try example_url empty_env False
              = (Fulfilled ?new, [SettingsRead, HttpGet example_url, SettingsWrite ?new])"
    by (simp add: getUpdate_try_def read_update_def fetch_latest_def Let_def d r empty_env_def)
  have t2: "getUpdate_try example_url unwritable_env False
              = (Rejected ?denied, [SettingsRead, HttpGet example_url, SettingsWrite ?new])"
    by (simp add: getUpdate_try_def read_update_def fetch_latest_def Let_def d r
          unwritable_env_def)
  have "\<not> False \<and> env_read unreadable_env = Inl ?eio
          \<longrightarrow> filter is_write (snd (getUpdate' example_url unreadable_env False)) = []"
    using getUpdate_store_writes[of False unreadable_env ?eio example_url ?refused
            "''<html>''" ?token ?new ?denied]
    by blast
  then have a: "filter is_write (snd (getUpdate' example_url unreadable_env False)) = []"
    by (simp add: d unreadable_env_def)
  have "fst (request (env_net refused_env) (env_resolve refused_env) example_url)
            = Rejected ?refused
          \<longrightarrow> filter is_write (snd (getUpdate' example_url refused_env False)) = []"
    using getUpdate_store_writes[of False refused_env ?eio example_url ?refused
            "''<html>''" ?token ?new ?denied]
    by blast
  then have b: "filter is_write (snd (getUpdate' example_url refused_env False)) = []"
    by (simp add: d refused_env_def request_refusing_net)
  have "fst (request (env_net page_env) (env_resolve page_env) example_url)
            = Fulfilled ''<html>''
          \<and> env_parse page_env ''<html>'' = Inl ?token
          \<longrightarrow> filter is_write (snd (getUpdate' example_url page_env False)) = []"
    using getUpdate_store_writes[of False page_env ?eio example_url ?refused
            "''<html>''" ?token ?new ?denied]
    by blast
  then have c: "filter is_write (snd (getUpdate' example_url page_env False)) = []"
    by (simp add: d page_env_def request_page_net)
  have "fst (getUpdate_try example_url empty_env False) = Fulfilled ?new
          \<and> HttpGet example_url \<in> set (snd (getUpdate' example_url empty_env False))
          \<longrightarrow> filter is_write (snd (getUpdate' example_url empty_env False))
               = [SettingsWrite ?new]"
    using getUpdate_store_writes[of False empty_env ?eio example_url ?refused
            "''<html>''" ?token ?new ?denied]
    by blast
  then have e: "filter is_write (snd (getUpdate' example_url empty_env False))
                  = [SettingsWrite ?new]"
    by (simp add: t1 snd_getUpdate')
  have "fst (getUpdate_try example_url unwritable_env False) = Rejected ?denied
          \<and> filter is_write (snd (getUpdate' example_url unwritable_env False)) \<noteq> []
          \<longrightarrow> (\<exists>w. env_write unwritable_env w = Some ?denied
                 \<and> filter is_write (snd (getUpdate' example_url unwritable_env False))
                     = [SettingsWrite w])"
    using getUpdate_store_writes[of False unwritable_env ?eio example_url ?refused
            "''<html>''" ?token ?new ?denied]
    by blast
  then have f: "filter is_write (snd (getUpdate' example_url unwritable_env False))
                  = [SettingsWrite ?new]"
    by (simp add: t2 snd_getUpdate')
  from a b c e f show ?thesis by simp
qed

text \<open>
  Claim C4 as stated fails when the store's write rejects: the check returns the fallback,
  and \<open>settings.write\<close> has been called with the new record.
\<close>

theorem failed_write_counterexample:
  "getUpdate' example_url unwritable_env False
     = (Fulfilled (fallback unwritable_env),
        [SettingsRead, HttpGet example_url,
         SettingsWrite \<lparr>checked = 5, version = ''1.3.0''\<rparr>])"
proof -
  note r = request_redirecting_net_0
  show ?thesis
    by (simp add: getUpdate'_def catch_def getUpdate_try_def read_update_def fetch_latest_def
          example_env_def unwritable_env_def write_settles_def parse_release_def Let_def r)
qed

section \<open>Properties of \<open>getUpdate\<close> and the status surface\<close>

lemma getUpdate_idle:
  "enabled p \<Longrightarrow> update p = None \<Longrightarrow>
     getUpdate p env force =
       (fst (getUpdate' (latestUrl p) env force),
        p\<lparr>update := Some (fst (getUpdate' (latestUrl p) env force))\<rparr>,
        snd (getUpdate' (latestUrl p) env force))"
  by (simp add: getUpdate_def split: prod.splits)

lemma getUpdate_in_flight:
  "enabled p \<Longrightarrow> update p = Some r \<Longrightarrow> getUpdate p env force = (r, p, [])"
  by (simp add: getUpdate_def)

lemma getUpdate_disabled:
  "\<not> enabled p \<Longrightarrow>
     getUpdate p env force = (Rejected (Error None ''updates are not enabled''), p, [])"
  by (simp add: getUpdate_def)













text \<open>
  The condition on the fetch is needed: against the server that redirects to an \<open>ftp:\<close>
  URI the promise of \<open>getUpdate\<close> stays pending, the marker stays set and a later call
  joins the pending promise.
\<close>

lemma getUpdate_ftp_env:
  "run (example_provider True) [Call ftp_env True, Settle, Call empty_env True]
     = ([Returned Unsettled [HttpGet example_url, HttpGet ''ftp://example.com/latest''],
         Nothing,
         Returned Unsettled []],
        (example_provider True)\<lparr>update := Some Unsettled\<rparr>)"
  by (simp add: getUpdate_def getUpdate'_def catch_def getUpdate_try_def read_update_def
        fetch_latest_def example_provider_def ftp_env_def example_env_def request_ftp_net)

text \<open>
  Claim C9. On a disabled provider the JSON status query answers \<open>{ isLatest: true }\<close>
  with no effect on the network or the store and with the provider unchanged, and
  \<open>getUpdate\<close>, forced or not, rejects with \<open>updates are not enabled\<close>, equally without
  any effect.
\<close>

theorem disabled_short_circuits:
  "\<not> enabled p \<longrightarrow>
     getRoot lt currentVersion p env (Some ''application/json'') resource errorOrUpdate
       = (Fulfilled (JsonContent None True), p, [])
     \<and> getUpdate p env force = (Rejected (Error None ''updates are not enabled''), p, [])"
  by (simp add: getRoot_def getUpdate_def)

theorem disabled_short_circuits_witness:
  "getRoot (semver_lt SemVer_parse SemVer_compare) ''1.2.0'' (example_provider False) stale_env
     (Some ''application/json'') None None
     = (Fulfilled (JsonContent None True), example_provider False, [])
   \<and> getUpdate (example_provider False) stale_env True
     = (Rejected (Error None ''updates are not enabled''), example_provider False, [])"
  using disabled_short_circuits[of "example_provider False"
          "semver_lt SemVer_parse SemVer_compare" "''1.2.0''" stale_env None None True]
  by (simp add: example_provider_def)

section \<open>The single-flight invariant\<close>

lemma getUpdate'_has_effects: "snd (getUpdate' uri env force) \<noteq> []"
proof (cases rule: getUpdate_try_cases[of force env uri])
  case (fetch t)
  with fetch_latest_starts[of uri env t] show ?thesis
    by (auto simp: snd_getUpdate')
qed (simp_all add: snd_getUpdate')

lemma step_balance:
  "step p ev = (ob, p') \<Longrightarrow>
     (if started ob then 1 else 0) + in_flight p = (if is_settled ob then 1 else 0) + in_flight p'"
proof (cases ev)
  case (Call env force)
  assume s: "step p ev = (ob, p')"
  show ?thesis
  proof (cases "enabled p")
    case False
    with s Call show ?thesis by (auto simp: getUpdate_disabled)
  next
    case True
    show ?thesis
    proof (cases "update p")
      case None
      with s Call True show ?thesis
        by (auto simp: getUpdate_idle in_flight_def getUpdate'_has_effects)
    next
      case (Some u)
      with s Call True show ?thesis
        by (auto simp: getUpdate_in_flight in_flight_def)
    qed
  qed
next
  case Settle
  assume "step p ev = (ob, p')"
  with Settle show ?thesis
    by (auto simp: in_flight_def settle_def split: option.splits promise.splits)
qed

lemma run_balance:
  "length (filter started (fst (run p evs))) + in_flight p =
     length (filter is_settled (fst (run p evs))) + in_flight (snd (run p evs))"
proof (induction evs arbitrary: p)
  case Nil
  show ?case by simp
next
  case (Cons ev evs)
  obtain ob p' where s: "step p ev = (ob, p')" by (cases "step p ev")
  from step_balance[OF s] Cons.IH[of p'] s show ?case
    by (auto split: prod.splits)
qed

lemma run_joiners:
  "enabled p \<Longrightarrow> update p = Some r \<Longrightarrow>
     run p (map (\<lambda>(env, force). Call env force) calls @ [Settle]) =
       (map (\<lambda>c. Returned r []) calls @ [fst (step p Settle)], snd (step p Settle))"
  by (induction calls) (auto simp: getUpdate_in_flight split: promise.splits)

lemma network_filter: "list_all is_network t \<Longrightarrow> filter is_network t = t"
  by (induction t) auto

lemma fetch_latest_network:
  "filter is_network (snd (fetch_latest uri env t)) =
     filter is_network t @ snd (request (env_net env) (env_resolve env) uri)"
  using network_filter[OF request_network[of "env_net env" "env_resolve env" uri]]
  by (simp add: fetch_latest_cases split: promise.splits sum.splits option.splits)

lemma getUpdate'_one_fetch:
  "force \<or> env_read env = Inr None \<Longrightarrow>
     filter is_network (snd (getUpdate' uri env force)) =
       snd (request (env_net env) (env_resolve env) uri)"
  by (cases force)
     (auto simp: getUpdate'_forced getUpdate'_stale snd_catch fetch_latest_network)

lemma getUpdate'_at_most_one_fetch:
  "filter is_network (snd (getUpdate' uri env force)) = []
   \<or> filter is_network (snd (getUpdate' uri env force))
       = snd (request (env_net env) (env_resolve env) uri)"
  by (cases rule: getUpdate_try_cases[of force env uri])
     (auto simp: snd_getUpdate' fetch_latest_network)

text \<open>
  Claim C2. While the marker \<open>update\<close> is set, every call of \<open>getUpdate\<close>, forced or
  not, returns the pending promise and has no effect: it starts no check operation. The
  callback that runs when the operation settles clears the marker. In every run from an
  idle provider the operations started are the operations settled plus the one in flight, if
  any, so at most one is in flight. And calls made one after another before the operation
  settles all return the promise of the one operation the first call started, and the
  settling of a promise that fulfils leaves the provider idle again; the effects of the whole
  run are the effects of that operation, whose network requests are those of at most one
  fetch, and of exactly one when it is forced or finds no record.
\<close>

theorem single_flight:
  "(enabled p \<and> update p = Some r \<longrightarrow> getUpdate p env force = (r, p, []))
   \<and> update (settle p) = None
   \<and> (update p = None \<longrightarrow>
        length (filter started (fst (run p evs)))
          = length (filter is_settled (fst (run p evs))) + in_flight (snd (run p evs)))
   \<and> (enabled p \<and> update p = None \<longrightarrow>
        run p (Call env force # map (\<lambda>(env', force'). Call env' force') calls @ [Settle])
          = (case fst (getUpdate' (latestUrl p) env force) of
               Fulfilled u \<Rightarrow>
                 (Returned (Fulfilled u) (snd (getUpdate' (latestUrl p) env force))
                    # map (\<lambda>c. Returned (Fulfilled u) []) calls
                    @ [Settled],
                  p)
             | r' \<Rightarrow>
                 (Returned r' (snd (getUpdate' (latestUrl p) env force))
                    # map (\<lambda>c. Returned r' []) calls
                    @ [Nothing],
                  p\<lparr>update := Some r'\<rparr>)))
   \<and> (enabled p \<and> update p = None \<longrightarrow>
        filter is_network
          (concat (map effects_of
             (fst (run p (Call env force # map (\<lambda>(env', force'). Call env' force') calls
                            @ [Settle])))))
          = []
        \<or> filter is_network
          (concat (map effects_of
             (fst (run p (Call env force # map (\<lambda>(env', force'). Call env' force') calls
                            @ [Settle])))))
          = snd (request (env_net env) (env_resolve env) (latestUrl p)))
   \<and> (enabled p \<and> update p = None \<and> (force \<or> env_read env = Inr None) \<longrightarrow>
        filter is_network
          (concat (map effects_of
             (fst (run p (Call env force # map (\<lambda>(env', force'). Call env' force') calls
                            @ [Settle])))))
          = snd (request (env_net env) (env_resolve env) (latestUrl p)))"
  (is "?A \<and> ?B \<and> ?C \<and> ?D \<and> ?N \<and> ?E")
proof -
  let ?r = "fst (getUpdate' (latestUrl p) env force)"
  let ?q = "p\<lparr>update := Some ?r\<rparr>"
  have a: ?A by (simp add: getUpdate_in_flight)
  have b: ?B by (simp add: settle_def)
  have c: ?C
  proof (rule impI)
    assume "update p = None"
    then have "in_flight p = 0" by (simp add: in_flight_def)
    with run_balance[of p evs]
    show "length (filter started (fst (run p evs)))
          = length (filter is_settled (fst (run p evs))) + in_flight (snd (run p evs))"
      by simp
  qed
  have r: "run p (Call env force # map (\<lambda>(env', force'). Call env' force') calls @ [Settle])
          = (Returned ?r (snd (getUpdate' (latestUrl p) env force))
               # map (\<lambda>c. Returned ?r []) calls @ [fst (step ?q Settle)],
             snd (step ?q Settle))"
    if i: "enabled p" "update p = None"
  proof -
    have "enabled ?q" "update ?q = Some ?r"
      using i by simp_all
    from run_joiners[OF this, of calls] i show ?thesis
      by (simp add: getUpdate_idle)
  qed
  have d: ?D
  proof (rule impI)
    assume i: "enabled p \<and> update p = None"
    then have "p\<lparr>update := None\<rparr> = p" by simp
    with r i show "run p (Call env force # map (\<lambda>(env', force'). Call env' force') calls
                          @ [Settle])
          = (case ?r of
               Fulfilled u \<Rightarrow>
                 (Returned (Fulfilled u) (snd (getUpdate' (latestUrl p) env force))
                    # map (\<lambda>c. Returned (Fulfilled u) []) calls
                    @ [Settled],
                  p)
             | r' \<Rightarrow>
                 (Returned r' (snd (getUpdate' (latestUrl p) env force))
                    # map (\<lambda>c. Returned r' []) calls
                    @ [Nothing],
                  p\<lparr>update := Some r'\<rparr>))"
      by (cases ?r) (simp_all add: settle_def del: run.simps)
  qed
  have j: "concat (map effects_of (map (\<lambda>c. Returned ?r []) calls)) = []"
    by (induction calls) simp_all
  have k: "effects_of (fst (step ?q Settle)) = []"
    by (simp split: promise.splits)
  have n: "filter is_network
          (concat (map effects_of
             (fst (run p (Call env force # map (\<lambda>(env', force'). Call env' force') calls
                            @ [Settle])))))
          = filter is_network (snd (getUpdate' (latestUrl p) env force))"
    if "enabled p" "update p = None"
    using r[OF that] j k by (simp del: run.simps step.simps)
  have e0: ?N
    using n getUpdate'_at_most_one_fetch[of "latestUrl p" env force] by simp
  have e: ?E
    using n getUpdate'_one_fetch[of force env "latestUrl p"] by simp
  show ?thesis
    by (rule conjI, fact a, rule conjI, fact b, rule conjI, fact c, rule conjI, fact d,
        rule conjI, fact e0, fact e)
qed

lemma getUpdate'_boundary_env:
  "getUpdate' example_url boundary_env False = (Fulfilled cached_record, [SettingsRead])"
  by (simp add: boundary_env_def example_env_def cached_record_def updateInterval_def
        getUpdate'_fresh)

lemma getUpdate'_empty_env:
  "getUpdate' example_url empty_env False
     = (Fulfilled \<lparr>checked = 5, version = ''1.3.0''\<rparr>,
        [SettingsRead, HttpGet example_url,
         SettingsWrite \<lparr>checked = 5, version = ''1.3.0''\<rparr>])"
  by (simp add: getUpdate'_def catch_def getUpdate_try_def read_update_def fetch_latest_def Let_def
        example_env_def empty_env_def write_settles_def parse_release_def
        request_redirecting_net_0)

theorem single_flight_witness:
  "getUpdate ((example_provider True)\<lparr>update := Some (Fulfilled cached_record)\<rparr>) stale_env True
     = (Fulfilled cached_record, (example_provider True)\<lparr>update := Some (Fulfilled cached_record)\<rparr>, [])
   \<and> length (filter started
        (fst (run (example_provider True)
                [Call empty_env False, Call stale_env True, Settle, Call refused_env False])))
      = length (filter is_settled
        (fst (run (example_provider True)
                [Call empty_env False, Call stale_env True, Settle, Call refused_env False])))
        + in_flight (snd (run (example_provider True)
                [Call empty_env False, Call stale_env True, Settle, Call refused_env False]))
   \<and> run (example_provider True)
        [Call empty_env False, Call stale_env True, Call refused_env False, Settle]
      = ([Returned (Fulfilled \<lparr>checked = 5, version = ''1.3.0''\<rparr>)
            [SettingsRead, HttpGet example_url,
             SettingsWrite \<lparr>checked = 5, version = ''1.3.0''\<rparr>],
          Returned (Fulfilled \<lparr>checked = 5, version = ''1.3.0''\<rparr>) [],
          Returned (Fulfilled \<lparr>checked = 5, version = ''1.3.0''\<rparr>) [],
          Settled],
         example_provider True)
   \<and> filter is_network
        (concat (map effects_of
           (fst (run (example_provider True)
                   [Call empty_env False, Call stale_env True, Call refused_env False, Settle]))))
      = [HttpGet example_url]
   \<and> run (example_provider True) [Call boundary_env False, Call empty_env False, Settle]
      = ([Returned (Fulfilled cached_record) [SettingsRead], Returned (Fulfilled cached_record) [], Settled],
         example_provider True)"
proof -
  let ?p = "example_provider True"
  let ?q = "?p\<lparr>update := Some (Fulfilled cached_record)\<rparr>"
  let ?evs = "[Call empty_env False, Call stale_env True, Settle, Call refused_env False]"
  let ?calls = "[(stale_env, True), (refused_env, False)]"
  have p: "enabled ?p" "update ?p = None" "latestUrl ?p = example_url"
    and q: "enabled ?q" "update ?q = Some (Fulfilled cached_record)"
    by (simp_all add: example_provider_def)
  have m: "env_read empty_env = Inr None"
    by (simp add: empty_env_def example_env_def)
  note t = single_flight[of ?p Unsettled empty_env False "[]" ?calls]
  have a: "getUpdate ?q stale_env True = (Fulfilled cached_record, ?q, [])"
    using single_flight[of ?q "Fulfilled cached_record" stale_env True "[]" "[]"] q by blast
  have b: "length (filter started (fst (run ?p ?evs)))
             = length (filter is_settled (fst (run ?p ?evs))) + in_flight (snd (run ?p ?evs))"
    using single_flight[of ?p Unsettled empty_env False ?evs "[]"] p by blast
  have "run ?p (Call empty_env False # map (\<lambda>(env', force'). Call env' force') ?calls @ [Settle])
          = (case fst (getUpdate' (latestUrl ?p) empty_env False) of
               Fulfilled u \<Rightarrow>
                 (Returned (Fulfilled u) (snd (getUpdate' (latestUrl ?p) empty_env False))
                    # map (\<lambda>c. Returned (Fulfilled u) []) ?calls
                    @ [Settled],
                  ?p)
             | r' \<Rightarrow>
                 (Returned r' (snd (getUpdate' (latestUrl ?p) empty_env False))
                    # map (\<lambda>c. Returned r' []) ?calls
                    @ [Nothing],
                  ?p\<lparr>update := Some r'\<rparr>))"
    using t p by blast
  then have c: "run ?p [Call empty_env False, Call stale_env True, Call refused_env False, Settle]
      = ([Returned (Fulfilled \<lparr>checked = 5, version = ''1.3.0''\<rparr>)
            [SettingsRead, HttpGet example_url,
             SettingsWrite \<lparr>checked = 5, version = ''1.3.0''\<rparr>],
          Returned (Fulfilled \<lparr>checked = 5, version = ''1.3.0''\<rparr>) [],
          Returned (Fulfilled \<lparr>checked = 5, version = ''1.3.0''\<rparr>) [],
          Settled], ?p)"
    by (simp add: p(3) getUpdate'_empty_env)
  have "filter is_network
          (concat (map effects_of
             (fst (run ?p (Call empty_env False
                             # map (\<lambda>(env', force'). Call env' force') ?calls @ [Settle])))))
          = snd (request (env_net empty_env) (env_resolve empty_env) (latestUrl ?p))"
    using t p m by blast
  then have e: "filter is_network
        (concat (map effects_of
           (fst (run ?p [Call empty_env False, Call stale_env True, Call refused_env False,
                         Settle]))))
      = [HttpGet example_url]"
    by (simp add: p(3) empty_env_def example_env_def request_redirecting_net_0 del: run.simps)
  have "run ?p (Call boundary_env False
                  # map (\<lambda>(env', force'). Call env' force') [(empty_env, False)] @ [Settle])
          = (case fst (getUpdate' (latestUrl ?p) boundary_env False) of
               Fulfilled u \<Rightarrow>
                 (Returned (Fulfilled u) (snd (getUpdate' (latestUrl ?p) boundary_env False))
                    # map (\<lambda>c. Returned (Fulfilled u) []) [(empty_env, False)]
                    @ [Settled],
                  ?p)
             | r' \<Rightarrow>
                 (Returned r' (snd (getUpdate' (latestUrl ?p) boundary_env False))
                    # map (\<lambda>c. Returned r' []) [(empty_env, False)]
                    @ [Nothing],
                  ?p\<lparr>update := Some r'\<rparr>))"
    using single_flight[of ?p Unsettled boundary_env False "[]" "[(empty_env, False)]"] p
    by blast
  then have f: "run ?p [Call boundary_env False, Call empty_env False, Settle]
      = ([Returned (Fulfilled cached_record) [SettingsRead], Returned (Fulfilled cached_record) [], Settled],
         ?p)"
    by (simp add: p(3) getUpdate'_boundary_env)
  from a b c e f show ?thesis by simp
qed

section \<open>Properties of the version comparator\<close>

text \<open>What the code computes on two strings that parse.\<close>

lemma isLatestVersion_parsed:
  "parse currentVersion = Some c \<Longrightarrow> parse (version latest) = Some l \<Longrightarrow>
     isLatestVersion (semver_lt parse compare) currentVersion latest
       = (version latest = currentVersion \<or> compare l c < 0)"
  by (simp add: isLatestVersion_def semver_lt_def)

text \<open>
  Claim C8. When the current version or the latest version does not parse, \<open>semver.lt\<close>
  throws, the \<open>catch\<close> answers, and \<open>isLatestVersion\<close> is true; nothing is raised.
\<close>

theorem isLatestVersion_fails_open:
  "parse currentVersion = None \<or> parse (version latest) = None \<longrightarrow>
     isLatestVersion (semver_lt parse compare) currentVersion latest"
  by (auto simp: isLatestVersion_def semver_lt_def split: option.splits)

theorem isLatestVersion_fails_open_witness:
  "SemVer_parse ''not-a-version'' = None
   \<and> isLatestVersion (semver_lt SemVer_parse SemVer_compare) ''1.2.0''
        \<lparr>checked = 0, version = ''not-a-version''\<rparr>"
proof -
  have n: "SemVer_parse ''not-a-version'' = None" by code_simp
  with isLatestVersion_fails_open[of SemVer_parse "''1.2.0''"
         "\<lparr>checked = 0, version = ''not-a-version''\<rparr>" SemVer_compare]
  show ?thesis by simp
qed

text \<open>
  Claim C7 at the current version \<open>1.2.0\<close> and the latest version \<open>v1.2.0\<close>. Both
  strings parse, to the same version, so the latest is not strictly greater than the
  current one and the claim (like the comment on the function, which promises true if
  the installed version is the latest) asks for true. The strings differ and \<open>semver.lt\<close>
  is false, so the code answers false.
\<close>

theorem isLatestVersion_same_version_other_string:
  "SemVer_parse ''1.2.0'' = Some \<lparr>major = 1, minor = 2, patch = 0, prerelease = [], build = []\<rparr>
   \<and> SemVer_parse ''v1.2.0'' = Some \<lparr>major = 1, minor = 2, patch = 0, prerelease = [], build = []\<rparr>
   \<and> semver_lt SemVer_parse SemVer_compare ''1.2.0'' ''v1.2.0'' = Inr False
   \<and> isLatestVersion (semver_lt SemVer_parse SemVer_compare) ''1.2.0''
        \<lparr>checked = 0, version = ''v1.2.0''\<rparr> = False"
  by code_simp

section \<open>Properties of the plugin loader\<close>

lemma loadPlugin_cases:
  "loadPlugin env d =
     (case env_require env d of
        Inl Nullish \<Rightarrow> (Inl (Thrown None (Some (env_type_error env))), [Require d])
      | Inl (Thrown c m) \<Rightarrow>
          (Inr (), [Require d,
                    Log (if c = Some ''MODULE_NOT_FOUND'' then LogDebug m [] else LogWarn m)])
      | Inr (Some Nullish) \<Rightarrow>
          (Inl (Thrown None (Some (env_type_error env))), [Require d, Activate d])
      | Inr (Some (Thrown c m)) \<Rightarrow>
          (Inr (), [Require d, Activate d,
                    Log (if c = Some ''MODULE_NOT_FOUND'' then LogDebug m [] else LogWarn m)])
      | Inr None \<Rightarrow>
          (Inr (), [Require d, Activate d,
                    Log (LogDebug (Some ''Loaded plugin'') [(''name'', basename d)])]))"
  by (simp add: loadPlugin_def loadPlugin_try_def split: sum.splits option.splits thrown.splits)

lemma loadPlugin_settles:
  "fst (loadPlugin env d) = Inr ()
   \<or> fst (loadPlugin env d) = Inl (Thrown None (Some (env_type_error env)))"
  by (simp add: loadPlugin_cases split: sum.splits option.splits thrown.splits)

lemma loadPlugin_requires: "\<exists>t. snd (loadPlugin env d) = Require d # t"
  by (simp add: loadPlugin_cases split: sum.splits option.splits thrown.splits)

lemma promise_all_effects:
  "snd (promise_all ps) = concat (map snd ps)"
  by (induction ps rule: promise_all.induct) (auto split: prod.splits sum.splits)

lemma promise_all_settles:
  "\<forall>p \<in> set ps. fst p = Inr () \<or> fst p = Inl z \<Longrightarrow>
     fst (promise_all ps) = (if list_ex (\<lambda>p. fst p \<noteq> Inr ()) ps then Inl z else Inr ())"
  by (induction ps rule: promise_all.induct) (auto split: prod.splits sum.splits)

lemma promise_all_map_settles:
  assumes "\<And>x. fst (f x) = Inr () \<or> fst (f x) = Inl z"
  shows "fst (promise_all (map f xs))
           = (if list_ex (\<lambda>x. fst (f x) \<noteq> Inr ()) xs then Inl z else Inr ())"
proof -
  have "\<forall>p \<in> set (map f xs). fst p = Inr () \<or> fst p = Inl z"
  proof
    fix p
    assume "p \<in> set (map f xs)"
    then obtain x where "p = f x" by auto
    with assms[of x] show "fst p = Inr () \<or> fst p = Inl z" by simp
  qed
  then have "fst (promise_all (map f xs))
               = (if list_ex (\<lambda>p. fst p \<noteq> Inr ()) (map f xs) then Inl z else Inr ())"
    by (rule promise_all_settles)
  moreover have "list_ex (\<lambda>p. fst p \<noteq> Inr ()) (map f xs) = list_ex (\<lambda>x. fst (f x) \<noteq> Inr ()) xs"
    by (induction xs) simp_all
  ultimately show ?thesis by simp
qed

text \<open>
  The scan of a directory that can be read: every plugin directory is loaded, and the scan
  rejects, with the \<open>TypeError\<close>, exactly when some \<open>loadPlugin\<close> rejects.
\<close>

lemma loadPlugins'_scan:
  assumes "env_readdir env = Inr files"
  shows "loadPlugins' env dir =
           (if list_ex (\<lambda>file. isDirectory file
                           \<and> fst (loadPlugin env (path_join dir (dirent_name file))) \<noteq> Inr ())
                 files
            then Inl (Thrown None (Some (env_type_error env))) else Inr (),
            Readdir dir
              # concat (map (\<lambda>file. if isDirectory file
                                    then snd (loadPlugin env (path_join dir (dirent_name file)))
                                    else [])
                          files))"
proof -
  let ?f = "\<lambda>file. if \<not> isDirectory file then (Inr (), [])
                   else loadPlugin env (path_join dir (dirent_name file))"
  let ?z = "Thrown None (Some (env_type_error env))"
  have "fst (?f x) = Inr () \<or> fst (?f x) = Inl ?z" for x
    using loadPlugin_settles[of env "path_join dir (dirent_name x)"] by simp
  then have "fst (promise_all (map ?f files))
               = (if list_ex (\<lambda>file. fst (?f file) \<noteq> Inr ()) files then Inl ?z else Inr ())"
    by (rule promise_all_map_settles)
  moreover have "list_ex (\<lambda>file. fst (?f file) \<noteq> Inr ()) files
                   = list_ex (\<lambda>file. isDirectory file
                           \<and> fst (loadPlugin env (path_join dir (dirent_name file))) \<noteq> Inr ())
                       files"
    by (induction files) auto
  moreover have "concat (map snd (map ?f files))
                   = concat (map (\<lambda>file. if isDirectory file
                                    then snd (loadPlugin env (path_join dir (dirent_name file)))
                                    else [])
                          files)"
    by (induction files) auto
  ultimately have "promise_all (map ?f files) =
           (if list_ex (\<lambda>file. isDirectory file
                           \<and> fst (loadPlugin env (path_join dir (dirent_name file))) \<noteq> Inr ())
                 files
            then Inl ?z else Inr (),
            concat (map (\<lambda>file. if isDirectory file
                                    then snd (loadPlugin env (path_join dir (dirent_name file)))
                                    else [])
                          files))"
    using promise_all_effects[of "map ?f files"]
    by (cases "promise_all (map ?f files)") simp
  with assms show ?thesis by (simp add: loadPlugins'_def)
qed

text \<open>
  Claim C10, as the code has it. \<open>loadPlugins\<close> always resolves. A missing plugins
  directory (\<open>ENOENT\<close>) leaves no log; any other failure of the scan is logged as a
  warning. \<open>loadPlugin\<close> has one \<open>catch\<close> for \<open>require\<close> and \<open>activate\<close>: an
  error thrown by either with the code \<open>MODULE_NOT_FOUND\<close> leaves one debug entry, an
  error with another code or none is logged as a warning, and \<open>loadPlugin\<close> resolves;
  a thrown \<open>null\<close> or \<open>undefined\<close> makes \<open>loadPlugin\<close> reject with a
  \<open>TypeError\<close>. When the directory can be read, every plugin directory of the scan is
  loaded whatever the others do, and \<open>loadPlugins\<close> adds one warning, for the
  \<open>TypeError\<close>, when some \<open>loadPlugin\<close> has rejected.
\<close>

theorem loadPlugins_always_resolves:
  "fst (loadPlugins env dir) = Inr ()
   \<and> (env_readdir env = Inl e \<and> code e = Some ''ENOENT''
        \<longrightarrow> loadPlugins env dir = (Inr (), [Readdir dir]))
   \<and> (env_readdir env = Inl e \<and> code e \<noteq> Some ''ENOENT''
        \<longrightarrow> loadPlugins env dir = (Inr (), [Readdir dir, Log (LogWarn (Some (message e)))]))
   \<and> loadPlugin env d =
       (case env_require env d of
          Inl Nullish \<Rightarrow> (Inl (Thrown None (Some (env_type_error env))), [Require d])
        | Inl (Thrown c m) \<Rightarrow>
            (Inr (), [Require d,
                      Log (if c = Some ''MODULE_NOT_FOUND'' then LogDebug m [] else LogWarn m)])
        | Inr (Some Nullish) \<Rightarrow>
            (Inl (Thrown None (Some (env_type_error env))), [Require d, Activate d])
        | Inr (Some (Thrown c m)) \<Rightarrow>
            (Inr (), [Require d, Activate d,
                      Log (if c = Some ''MODULE_NOT_FOUND'' then LogDebug m [] else LogWarn m)])
        | Inr None \<Rightarrow>
            (Inr (), [Require d, Activate d,
                      Log (LogDebug (Some ''Loaded plugin'') [(''name'', basename d)])]))
   \<and> (env_readdir env = Inr files
        \<longrightarrow> loadPlugins env dir =
             (Inr (),
              Readdir dir
                # concat (map (\<lambda>file. if isDirectory file
                                      then snd (loadPlugin env (path_join dir (dirent_name file)))
                                      else [])
                            files)
                @ (if list_ex (\<lambda>file. isDirectory file
                                 \<and> fst (loadPlugin env (path_join dir (dirent_name file)))
                                     \<noteq> Inr ())
                       files
                   then [Log (LogWarn (Some (env_type_error env)))] else [])))
   \<and> (env_readdir env = Inr files \<and> entry \<in> set files \<and> isDirectory entry
        \<longrightarrow> Require (path_join dir (dirent_name entry)) \<in> set (snd (loadPlugins env dir)))"
  (is "?A \<and> ?B \<and> ?C \<and> ?D \<and> ?E \<and> ?I")
proof -
  have e: ?E by (simp add: loadPlugins_def loadPlugins'_scan)
  have a: ?A
  proof (cases "env_readdir env")
    case (Inl x)
    then show ?thesis by (cases x) (simp add: loadPlugins_def loadPlugins'_def)
  next
    case (Inr fs)
    then show ?thesis by (simp add: loadPlugins_def loadPlugins'_scan)
  qed
  have b: ?B by (cases e) (auto simp: loadPlugins_def loadPlugins'_def)
  have c: ?C by (cases e) (auto simp: loadPlugins_def loadPlugins'_def)
  have d: ?D by (rule loadPlugin_cases)
  have i: ?I
  proof (rule impI)
    assume as: "env_readdir env = Inr files \<and> entry \<in> set files \<and> isDirectory entry"
    let ?d = "path_join dir (dirent_name entry)"
    obtain t where "snd (loadPlugin env ?d) = Require ?d # t"
      using loadPlugin_requires by blast
    then have "Require ?d \<in> set (snd (loadPlugin env ?d))" by simp
    with as show "Require ?d \<in> set (snd (loadPlugins env dir))"
      by (force simp: loadPlugins_def loadPlugins'_scan)
  qed
  show ?thesis
    by (rule conjI, fact a, rule conjI, fact b, rule conjI, fact c, rule conjI, fact d,
        rule conjI, fact e, fact i)
qed

theorem loadPlugins_always_resolves_witness:
  "loadPlugins missing_plugins plugins_dir = (Inr (), [Readdir plugins_dir])
   \<and> loadPlugins unreadable_plugins plugins_dir
       = (Inr (), [Readdir plugins_dir, Log (LogWarn (Some ''EACCES: permission denied''))])
   \<and> loadPlugin example_plugins ''/srv/code-server/plugins/static''
       = (Inr (), [Require ''/srv/code-server/plugins/static'',
                   Log (LogDebug (Some ''Cannot find module'') [])])
   \<and> loadPlugin example_plugins ''/srv/code-server/plugins/garbled''
       = (Inr (), [Require ''/srv/code-server/plugins/garbled'',
                   Log (LogWarn (Some ''Unexpected token''))])
   \<and> loadPlugins example_plugins plugins_dir
       = (Inr (),
          [Readdir plugins_dir,
           Require ''/srv/code-server/plugins/static'',
           Log (LogDebug (Some ''Cannot find module'') []),
           Require ''/srv/code-server/plugins/null'',
           Activate ''/srv/code-server/plugins/null'',
           Require ''/srv/code-server/plugins/broken'',
           Activate ''/srv/code-server/plugins/broken'',
           Log (LogWarn (Some ''activate failed'')),
           Require ''/srv/code-server/plugins/void'',
           Activate ''/srv/code-server/plugins/void'',
           Require ''/srv/code-server/plugins/good'',
           Activate ''/srv/code-server/plugins/good'',
           Log (LogDebug (Some ''Loaded plugin'') [(''name'', ''good'')]),
           Log (LogWarn (Some ''Cannot read property code of null''))])
   \<and> Require ''/srv/code-server/plugins/good''
       \<in> set (snd (loadPlugins example_plugins plugins_dir))"
proof -
  let ?enoent = "Error (Some ''ENOENT'') ''ENOENT: no such file or directory''"
  let ?eacces = "Error (Some ''EACCES'') ''EACCES: permission denied''"
  let ?good = "\<lparr>dirent_name = ''good'', isDirectory = True\<rparr>"
  let ?files = "[\<lparr>dirent_name = ''static'', isDirectory = True\<rparr>,
             \<lparr>dirent_name = ''null'', isDirectory = True\<rparr>,
             \<lparr>dirent_name = ''README.md'', isDirectory = False\<rparr>,
             \<lparr>dirent_name = ''broken'', isDirectory = True\<rparr>,
             \<lparr>dirent_name = ''void'', isDirectory = True\<rparr>, ?good]"
  let ?static = "''/srv/code-server/plugins/static''"
  let ?garbled = "''/srv/code-server/plugins/garbled''"
  note d = example_plugins_def missing_plugins_def unreadable_plugins_def example_require_def
    plugins_dir_def path_join_def
  note l = loadPlugin_def loadPlugin_try_def basename_def
  note t1 = loadPlugins_always_resolves[where env = example_plugins and dir = plugins_dir
      and d = ?static and files = ?files and entry = ?good]
  note t2 = loadPlugins_always_resolves[where env = missing_plugins and dir = plugins_dir
      and e = ?enoent]
  note t3 = loadPlugins_always_resolves[where env = unreadable_plugins and dir = plugins_dir
      and e = ?eacces]
  note t4 = loadPlugins_always_resolves[where env = example_plugins and d = ?garbled]
  have "env_readdir missing_plugins = Inl ?enoent \<and> code ?enoent = Some ''ENOENT''
          \<longrightarrow> loadPlugins missing_plugins plugins_dir = (Inr (), [Readdir plugins_dir])"
    using t2 by blast
  then have b: "loadPlugins missing_plugins plugins_dir = (Inr (), [Readdir plugins_dir])"
    by (simp add: d)
  have "env_readdir unreadable_plugins = Inl ?eacces \<and> code ?eacces \<noteq> Some ''ENOENT''
          \<longrightarrow> loadPlugins unreadable_plugins plugins_dir
              = (Inr (), [Readdir plugins_dir, Log (LogWarn (Some (message ?eacces)))])"
    using t3 by blast
  then have c: "loadPlugins unreadable_plugins plugins_dir
       = (Inr (), [Readdir plugins_dir, Log (LogWarn (Some ''EACCES: permission denied''))])"
    by (simp add: d)
  have "loadPlugin example_plugins ?static =
       (case env_require example_plugins ?static of
          Inl Nullish \<Rightarrow>
            (Inl (Thrown None (Some (env_type_error example_plugins))), [Require ?static])
        | Inl (Thrown c m) \<Rightarrow>
            (Inr (), [Require ?static,
                      Log (if c = Some ''MODULE_NOT_FOUND'' then LogDebug m [] else LogWarn m)])
        | Inr (Some Nullish) \<Rightarrow>
            (Inl (Thrown None (Some (env_type_error example_plugins))),
             [Require ?static, Activate ?static])
        | Inr (Some (Thrown c m)) \<Rightarrow>
            (Inr (), [Require ?static, Activate ?static,
                      Log (if c = Some ''MODULE_NOT_FOUND'' then LogDebug m [] else LogWarn m)])
        | Inr None \<Rightarrow>
            (Inr (), [Require ?static, Activate ?static,
                      Log (LogDebug (Some ''Loaded plugin'') [(''name'', basename ?static)])]))"
    using t1 by blast
  then have e: "loadPlugin example_plugins ?static
       = (Inr (), [Require ?static, Log (LogDebug (Some ''Cannot find module'') [])])"
    by (simp add: d)
  have "loadPlugin example_plugins ?garbled =
       (case env_require example_plugins ?garbled of
          Inl Nullish \<Rightarrow>
            (Inl (Thrown None (Some (env_type_error example_plugins))), [Require ?garbled])
        | Inl (Thrown c m) \<Rightarrow>
            (Inr (), [Require ?garbled,
                      Log (if c = Some ''MODULE_NOT_FOUND'' then LogDebug m [] else LogWarn m)])
        | Inr (Some Nullish) \<Rightarrow>
            (Inl (Thrown None (Some (env_type_error example_plugins))),
             [Require ?garbled, Activate ?garbled])
        | Inr (Some (Thrown c m)) \<Rightarrow>
            (Inr (), [Require ?garbled, Activate ?garbled,
                      Log (if c = Some ''MODULE_NOT_FOUND'' then LogDebug m [] else LogWarn m)])
        | Inr None \<Rightarrow>
            (Inr (), [Require ?garbled, Activate ?garbled,
                      Log (LogDebug (Some ''Loaded plugin'') [(''name'', basename ?garbled)])]))"
    using t4 by blast
  then have f: "loadPlugin example_plugins ?garbled
       = (Inr (), [Require ?garbled, Log (LogWarn (Some ''Unexpected token''))])"
    by (simp add: d)
  have "env_readdir example_plugins = Inr ?files
        \<longrightarrow> loadPlugins example_plugins plugins_dir =
             (Inr (),
              Readdir plugins_dir
                # concat (map (\<lambda>file. if isDirectory file
                                      then snd (loadPlugin example_plugins
                                                  (path_join plugins_dir (dirent_name file)))
                                      else [])
                            ?files)
                @ (if list_ex (\<lambda>file. isDirectory file
                                 \<and> fst (loadPlugin example_plugins
                                          (path_join plugins_dir (dirent_name file)))
                                     \<noteq> Inr ())
                       ?files
                   then [Log (LogWarn (Some (env_type_error example_plugins)))] else []))"
    using t1 by blast
  then have g: "loadPlugins example_plugins plugins_dir
       = (Inr (),
          [Readdir plugins_dir,
           Require ''/srv/code-server/plugins/static'',
           Log (LogDebug (Some ''Cannot find module'') []),
           Require ''/srv/code-server/plugins/null'',
           Activate ''/srv/code-server/plugins/null'',
           Require ''/srv/code-server/plugins/broken'',
           Activate ''/srv/code-server/plugins/broken'',
           Log (LogWarn (Some ''activate failed'')),
           Require ''/srv/code-server/plugins/void'',
           Activate ''/srv/code-server/plugins/void'',
           Require ''/srv/code-server/plugins/good'',
           Activate ''/srv/code-server/plugins/good'',
           Log (LogDebug (Some ''Loaded plugin'') [(''name'', ''good'')]),
           Log (LogWarn (Some ''Cannot read property code of null''))])"
    by (simp add: d l)
  have "env_readdir example_plugins = Inr ?files \<and> ?good \<in> set ?files \<and> isDirectory ?good
          \<longrightarrow> Require (path_join plugins_dir (dirent_name ?good))
                \<in> set (snd (loadPlugins example_plugins plugins_dir))"
    using t1 by blast
  then have i: "Require ''/srv/code-server/plugins/good''
       \<in> set (snd (loadPlugins example_plugins plugins_dir))"
    by (simp add: d)
  from b c e f g i show ?thesis by simp
qed

text \<open>
  Claim C10 as stated fails for an error of \<open>activate\<close>: the module of the directory
  loads, its \<open>activate\<close> runs and throws an error with the code \<open>MODULE_NOT_FOUND\<close>,
  and the one \<open>catch\<close> logs it at debug level; there is no warning.
\<close>

theorem activate_module_not_found_counterexample:
  "env_require example_plugins ''/srv/code-server/plugins/lazy''
     = Inr (Some (Thrown (Some ''MODULE_NOT_FOUND'') (Some ''Cannot find module'')))
   \<and> loadPlugin example_plugins ''/srv/code-server/plugins/lazy''
     = (Inr (), [Require ''/srv/code-server/plugins/lazy'',
                 Activate ''/srv/code-server/plugins/lazy'',
                 Log (LogDebug (Some ''Cannot find module'') [])])"
  by (simp add: loadPlugin_def loadPlugin_try_def example_plugins_def example_require_def)

end
